theory Spec2Isabelle
  imports Main
begin

chapter \<open>The REST routes of PingJob\<close>

text \<open>
  A shallow embedding of \<^verbatim>\<open>server/routes.ts\<close>: the JavaScript values and library
  functions the handlers use, the seventy routes that \<^verbatim>\<open>registerRoutes\<close> registers, each
  handler as a function of the schemas, the storage and the request, and the router that
  picks the handler for a request. The storage (\<^verbatim>\<open>./storage\<close>), the schemas
  (\<^verbatim>\<open>@shared/schema\<close>) and the session set-up (\<^verbatim>\<open>./auth\<close>) are collaborators whose code is
  not among the sources; the handlers take them as parameters. The properties proved
  are about responses, status codes and the calls a handler makes into the storage.
\<close>

section \<open>JavaScript values as the route handlers use them\<close>

text \<open>
  The handlers of \<^verbatim>\<open>server/routes.ts\<close> are written against \<^verbatim>\<open>req: any\<close>: request bodies,
  storage results and session users are untyped JavaScript values. They are modelled by
  one datatype of values. Numbers are the integers and \<^verbatim>\<open>NaN\<close> (the only numbers the
  handlers compute come from \<^verbatim>\<open>parseInt\<close>, \<^verbatim>\<open>Date.now\<close> and literals); an integer is kept
  exact, where an IEEE double would round beyond \<open>2^53\<close>. An object is the list of its
  own properties in insertion order. A string is a list of characters, one per code unit.
\<close>

datatype jsval =
    JUndefined
  | JNull
  | JBool bool
  | JNum int
  | JNaN
  | JStr string
  | JArr "jsval list"
  | JObj "(string \<times> jsval) list"

text \<open>What a \<^verbatim>\<open>throw\<close> carries. \<^verbatim>\<open>z.ZodError\<close> has a list of issues in \<^verbatim>\<open>.errors\<close>.\<close>

datatype exn =
    Error string
  | TypeError string
  | ZodError string "jsval list"

fun exn_message :: "exn \<Rightarrow> string" where
  "exn_message (Error m) = m"
| "exn_message (TypeError m) = m"
| "exn_message (ZodError m issues) = m"

fun exn_errors :: "exn \<Rightarrow> jsval" where
  "exn_errors (ZodError m issues) = JArr issues"
| "exn_errors e = JUndefined"

fun instanceof_ZodError :: "exn \<Rightarrow> bool" where
  "instanceof_ZodError (ZodError m issues) = True"
| "instanceof_ZodError e = False"

text \<open>Truthiness, as \<^verbatim>\<open>if (x)\<close>, \<^verbatim>\<open>!x\<close>, \<^verbatim>\<open>x && y\<close> and \<^verbatim>\<open>x || y\<close> test it.\<close>

fun truthy :: "jsval \<Rightarrow> bool" where
  "truthy JUndefined = False"
| "truthy JNull = False"
| "truthy (JBool b) = b"
| "truthy (JNum n) = (n \<noteq> 0)"
| "truthy JNaN = False"
| "truthy (JStr s) = (s \<noteq> [])"
| "truthy (JArr xs) = True"
| "truthy (JObj kvs) = True"

definition js_or :: "jsval \<Rightarrow> jsval \<Rightarrow> jsval" where
  "js_or a b = (if truthy a then a else b)"

text \<open>
  Property read \<^verbatim>\<open>v.k\<close>. On \<^verbatim>\<open>undefined\<close> and \<^verbatim>\<open>null\<close> it throws a TypeError; on an object
  it is the property or \<^verbatim>\<open>undefined\<close>. None of the names the handlers read
  (\<^verbatim>\<open>id\<close>, \<^verbatim>\<open>email\<close>, \<^verbatim>\<open>isActive\<close>, \<^verbatim>\<open>status\<close>, ...) is a built-in property of a primitive or
  an array, so there the read is \<^verbatim>\<open>undefined\<close>.
\<close>

fun obj_get :: "(string \<times> jsval) list \<Rightarrow> string \<Rightarrow> jsval" where
  "obj_get [] k = JUndefined"
| "obj_get ((k', v) # kvs) k = (if k' = k then v else obj_get kvs k)"

fun get_prop :: "jsval \<Rightarrow> string \<Rightarrow> exn + jsval" where
  "get_prop JUndefined k = Inl (TypeError (''Cannot read properties of undefined (reading '' @ k @ '')''))"
| "get_prop JNull k = Inl (TypeError (''Cannot read properties of null (reading '' @ k @ '')''))"
| "get_prop (JObj kvs) k = Inr (obj_get kvs k)"
| "get_prop v k = Inr JUndefined"

text \<open>Optional chaining \<^verbatim>\<open>v?.k\<close>.\<close>

fun get_prop_opt :: "jsval \<Rightarrow> string \<Rightarrow> jsval" where
  "get_prop_opt (JObj kvs) k = obj_get kvs k"
| "get_prop_opt v k = JUndefined"

text \<open>
  Property write on an object literal or by assignment: an existing key keeps its place
  and takes the new value, a new key goes last. \<^verbatim>\<open>{ ...body, k: v }\<close> is
  \<open>obj_set body k v\<close>.
\<close>

fun obj_set :: "(string \<times> jsval) list \<Rightarrow> string \<Rightarrow> jsval \<Rightarrow> (string \<times> jsval) list" where
  "obj_set [] k v = [(k, v)]"
| "obj_set ((k', v') # kvs) k v = (if k' = k then (k, v) # kvs else (k', v') # obj_set kvs k v)"

text \<open>
  \<^verbatim>\<open>v.length\<close>, read by the handlers on storage results and on query strings:
  \<open>js_length\<close> for a value known not to be \<^verbatim>\<open>null\<close> or \<^verbatim>\<open>undefined\<close>, \<open>get_length\<close> with
  the TypeError, \<open>opt_length\<close> for \<^verbatim>\<open>v?.length\<close>.
\<close>

fun js_length :: "jsval \<Rightarrow> jsval" where
  "js_length (JStr s) = JNum (int (length s))"
| "js_length (JArr xs) = JNum (int (length xs))"
| "js_length (JObj kvs) = obj_get kvs ''length''"
| "js_length v = JUndefined"

fun get_length :: "jsval \<Rightarrow> exn + jsval" where
  "get_length JUndefined = Inl (TypeError ''Cannot read properties of undefined (reading length)'')"
| "get_length JNull = Inl (TypeError ''Cannot read properties of null (reading length)'')"
| "get_length v = Inr (js_length v)"

definition opt_length :: "jsval \<Rightarrow> jsval" where
  "opt_length v = js_length v"

text \<open>Comparisons of a number with a literal; every comparison with \<^verbatim>\<open>NaN\<close> or \<^verbatim>\<open>undefined\<close> is false.\<close>

fun num_gt :: "jsval \<Rightarrow> int \<Rightarrow> bool" where
  "num_gt (JNum n) k = (n > k)"
| "num_gt v k = False"

fun num_ge :: "jsval \<Rightarrow> int \<Rightarrow> bool" where
  "num_ge (JNum n) k = (n \<ge> k)"
| "num_ge v k = False"

fun num_lt :: "jsval \<Rightarrow> int \<Rightarrow> bool" where
  "num_lt (JNum n) k = (n < k)"
| "num_lt v k = False"

fun math_min :: "jsval \<Rightarrow> int \<Rightarrow> jsval" where
  "math_min (JNum n) k = JNum (min n k)"
| "math_min v k = JNaN"

fun isNaN :: "jsval \<Rightarrow> bool" where
  "isNaN JNaN = True"
| "isNaN v = False"

subsection \<open>Strings\<close>

text \<open>
  White space as \<^verbatim>\<open>String.prototype.trim\<close> and \<^verbatim>\<open>parseInt\<close> skip it: TAB, LF, VT, FF, CR,
  SPACE and NBSP are the white-space code units below 256.
\<close>

definition is_ws :: "char \<Rightarrow> bool" where
  "is_ws c = (let n = (of_char c :: nat) in n = 9 \<or> n = 10 \<or> n = 11 \<or> n = 12 \<or> n = 13 \<or> n = 32 \<or> n = 160)"

definition trim :: "string \<Rightarrow> string" where
  "trim s = rev (dropWhile is_ws (rev (dropWhile is_ws s)))"

definition digit_of :: "char \<Rightarrow> nat option" where
  "digit_of c = (let n = (of_char c :: nat) in
     if 48 \<le> n \<and> n \<le> 57 then Some (n - 48)
     else if 97 \<le> n \<and> n \<le> 122 then Some (n - 87)
     else if 65 \<le> n \<and> n \<le> 90 then Some (n - 55)
     else None)"

definition is_digit_in :: "nat \<Rightarrow> char \<Rightarrow> bool" where
  "is_digit_in radix c = (case digit_of c of Some d \<Rightarrow> d < radix | None \<Rightarrow> False)"

fun digits_value :: "nat \<Rightarrow> nat \<Rightarrow> string \<Rightarrow> nat" where
  "digits_value radix acc [] = acc"
| "digits_value radix acc (c # cs) =
     digits_value radix (acc * radix + (case digit_of c of Some d \<Rightarrow> d | None \<Rightarrow> 0)) cs"

text \<open>
  \<^verbatim>\<open>parseInt(s)\<close> with no radix: skip leading white space, read a sign, take radix 16
  after \<^verbatim>\<open>0x\<close> or \<^verbatim>\<open>0X\<close> and radix 10 otherwise, read the longest run of digits and ignore
  what follows; with no digit at all the result is \<^verbatim>\<open>NaN\<close>.
\<close>

definition parseInt_string :: "string \<Rightarrow> jsval" where
  "parseInt_string s =
     (let s1 = dropWhile is_ws s;
          neg = (case s1 of c # r \<Rightarrow> c = CHR ''-'' | [] \<Rightarrow> False);
          s2 = (case s1 of c # r \<Rightarrow> if c = CHR ''-'' \<or> c = CHR ''+'' then r else s1 | [] \<Rightarrow> s1);
          hex = (case s2 of a # b # r \<Rightarrow> a = CHR ''0'' \<and> (b = CHR ''x'' \<or> b = CHR ''X'') | _ \<Rightarrow> False);
          radix = (if hex then 16 else 10);
          s3 = (if hex then drop 2 s2 else s2);
          ds = takeWhile (is_digit_in radix) s3
      in if ds = [] then JNaN
         else JNum ((if neg then - 1 else 1) * int (digits_value radix 0 ds)))"

text \<open>Decimal numerals, for \<^verbatim>\<open>String(n)\<close> and template literals.\<close>

fun show_nat :: "nat \<Rightarrow> string" where
  "show_nat n = (if n < 10 then [char_of (48 + n)] else show_nat (n div 10) @ [char_of (48 + n mod 10)])"

declare show_nat.simps [simp del]

definition show_int :: "int \<Rightarrow> string" where
  "show_int i = (if i < 0 then CHR ''-'' # show_nat (nat (- i)) else show_nat (nat i))"

fun join_with :: "string \<Rightarrow> string list \<Rightarrow> string" where
  "join_with sep [] = []"
| "join_with sep [x] = x"
| "join_with sep (x # y # ys) = x @ sep @ join_with sep (y # ys)"

text \<open>
  \<^verbatim>\<open>String(v)\<close>, which a template literal \<^verbatim>\<open>`${v}`\<close> and \<^verbatim>\<open>parseInt(v)\<close> apply to their
  argument. An array joins its elements with commas, \<^verbatim>\<open>null\<close> and \<^verbatim>\<open>undefined\<close> elements
  printing as nothing.
\<close>

fun to_string :: "jsval \<Rightarrow> string" where
  "to_string JUndefined = ''undefined''"
| "to_string JNull = ''null''"
| "to_string (JBool b) = (if b then ''true'' else ''false'')"
| "to_string (JNum n) = show_int n"
| "to_string JNaN = ''NaN''"
| "to_string (JStr s) = s"
| "to_string (JArr xs) =
     join_with '','' (map (\<lambda>x. if x = JUndefined \<or> x = JNull then [] else to_string x) xs)"
| "to_string (JObj kvs) = ''[object Object]''"

definition parseInt :: "jsval \<Rightarrow> jsval" where
  "parseInt v = parseInt_string (to_string v)"

text \<open>
  \<^verbatim>\<open>a + b\<close>: arrays and objects become strings first; with a string on either side the
  result is the concatenation, otherwise the sum of the two as numbers.
\<close>

fun to_primitive :: "jsval \<Rightarrow> jsval" where
  "to_primitive (JArr xs) = JStr (to_string (JArr xs))"
| "to_primitive (JObj kvs) = JStr (to_string (JObj kvs))"
| "to_primitive v = v"

fun to_number :: "jsval \<Rightarrow> jsval" where
  "to_number JNull = JNum 0"
| "to_number (JBool b) = JNum (if b then 1 else 0)"
| "to_number (JNum n) = JNum n"
| "to_number v = JNaN"

fun is_string :: "jsval \<Rightarrow> bool" where
  "is_string (JStr s) = True"
| "is_string v = False"

fun num_add :: "jsval \<Rightarrow> jsval \<Rightarrow> jsval" where
  "num_add (JNum a) (JNum b) = JNum (a + b)"
| "num_add a b = JNaN"

definition js_add :: "jsval \<Rightarrow> jsval \<Rightarrow> jsval" where
  "js_add a b =
     (let pa = to_primitive a; pb = to_primitive b in
      if is_string pa \<or> is_string pb then JStr (to_string pa @ to_string pb)
      else num_add (to_number pa) (to_number pb))"

text \<open>\<^verbatim>\<open>s.trim()\<close>; a value that is not a string has no such method.\<close>

fun js_trim :: "jsval \<Rightarrow> exn + string" where
  "js_trim (JStr s) = Inr (trim s)"
| "js_trim v = Inl (TypeError ''query.trim is not a function'')"

text \<open>\<^verbatim>\<open>String.prototype.toLowerCase\<close> on the code units below 256.\<close>

definition lower_char :: "char \<Rightarrow> char" where
  "lower_char c = (let n = (of_char c :: nat) in
     if (65 \<le> n \<and> n \<le> 90) \<or> (192 \<le> n \<and> n \<le> 222 \<and> n \<noteq> 215) then char_of (n + 32) else c)"

definition toLowerCase :: "string \<Rightarrow> string" where
  "toLowerCase s = map lower_char s"

fun split_on :: "char \<Rightarrow> string \<Rightarrow> string list" where
  "split_on c [] = [[]]"
| "split_on c (x # xs) =
     (if x = c then [] # split_on c xs
      else (case split_on c xs of y # ys \<Rightarrow> (x # y) # ys | [] \<Rightarrow> [[x]]))"

text \<open>
  \<^verbatim>\<open>path.extname\<close>: the text from the last dot of the last path portion, empty when there
  is no dot or when the only dot is the first character of that portion.
\<close>

fun last_dot :: "string \<Rightarrow> nat option" where
  "last_dot [] = None"
| "last_dot (c # cs) =
     (case last_dot cs of Some i \<Rightarrow> Some (Suc i)
      | None \<Rightarrow> if c = CHR ''.'' then Some 0 else None)"

definition extname :: "string \<Rightarrow> string" where
  "extname p =
     (let base = last (split_on CHR ''/'' p) in
      if base = ''..'' then []
      else (case last_dot base of None \<Rightarrow> [] | Some i \<Rightarrow> if i = 0 then [] else drop i base))"

section \<open>Requests, responses and the storage collaborator\<close>

datatype http_method = GET | POST | PUT | PATCH | DELETE

text \<open>A file part of a multipart request, with the name \<^verbatim>\<open>multer\<close> stores it under.\<close>

record file_part =
  fieldname :: string
  originalname :: string
  size_bytes :: nat
  filename :: string

text \<open>
  What a handler can read of a request. \<open>req_path\<close> is the path without its query
  string and without percent-escapes; \<open>params\<close> is filled by the router, \<open>user\<close> by the
  authentication middleware and \<open>req_file\<close> by the upload middleware. Query values are
  strings, as the source casts them (\<^verbatim>\<open>req.query.q as string\<close>), and the body is a JSON
  object. \<open>date_now\<close> is what \<^verbatim>\<open>Date.now()\<close> returns during the request and
  \<open>fs_renameSync\<close> says whether \<^verbatim>\<open>fs.renameSync\<close> throws.
\<close>

record request =
  req_method :: http_method
  req_path :: string
  params :: "(string \<times> string) list"
  query :: "(string \<times> string) list"
  req_body :: "(string \<times> jsval) list"
  session_user :: jsval
  user :: jsval
  upload_part :: "file_part option"
  req_file :: "file_part option"
  date_now :: nat
  fs_renameSync :: "string \<Rightarrow> string \<Rightarrow> exn option"

record response =
  status :: nat
  res_body :: jsval

definition req_param :: "request \<Rightarrow> string \<Rightarrow> jsval" where
  "req_param req k = (case map_of (params req) k of Some s \<Rightarrow> JStr s | None \<Rightarrow> JUndefined)"

definition req_query :: "request \<Rightarrow> string \<Rightarrow> jsval" where
  "req_query req k = (case map_of (query req) k of Some s \<Rightarrow> JStr s | None \<Rightarrow> JUndefined)"

text \<open>
  The module \<^verbatim>\<open>./storage\<close> is the data-access collaborator. A handler sees it as a set
  of asynchronous methods; a call \<^verbatim>\<open>await storage.m(a, b)\<close> either throws or returns a
  value. The storage a request runs against is a function of the method name and the
  arguments, and a handler's run records the calls it makes, in order.
\<close>

type_synonym storage = "string \<Rightarrow> jsval list \<Rightarrow> exn + jsval"

type_synonym calls = "(string \<times> jsval list) list"

type_synonym 'a comp = "(exn + 'a) \<times> calls"

definition ret :: "'a \<Rightarrow> 'a comp" where
  "ret a = (Inr a, [])"

definition lift :: "exn + 'a \<Rightarrow> 'a comp" where
  "lift r = (r, [])"

definition bindc :: "'a comp \<Rightarrow> ('a \<Rightarrow> 'b comp) \<Rightarrow> 'b comp" where
  "bindc m f =
     (case m of
        (Inl e, cs) \<Rightarrow> (Inl e, cs)
      | (Inr a, cs) \<Rightarrow> (case f a of (r, cs') \<Rightarrow> (r, cs @ cs')))"

definition call :: "storage \<Rightarrow> string \<Rightarrow> jsval list \<Rightarrow> jsval comp" where
  "call st name args = (st name args, [(name, args)])"

text \<open>
  \<^verbatim>\<open>await Promise.all([storage.a(..), storage.b(..)])\<close>: both calls are started before
  either is awaited; the whole rejects when one of them does.
\<close>

definition promise_all2 ::
  "storage \<Rightarrow> string \<times> jsval list \<Rightarrow> string \<times> jsval list \<Rightarrow> (jsval \<times> jsval) comp" where
  "promise_all2 st c1 c2 =
     ((case st (fst c1) (snd c1) of
         Inl e \<Rightarrow> Inl e
       | Inr a \<Rightarrow> (case st (fst c2) (snd c2) of Inl e \<Rightarrow> Inl e | Inr b \<Rightarrow> Inr (a, b))),
      [c1, c2])"

text \<open>
  A route either sends a response or, in the upload middleware, passes an error on to
  the error handling of the application, which is not part of \<^verbatim>\<open>routes.ts\<close>.
\<close>

datatype outcome = Respond response | NextError exn

type_synonym result = "outcome \<times> calls"

definition json :: "nat \<Rightarrow> jsval \<Rightarrow> response comp" where
  "json code v = ret \<lparr>status = code, res_body = v\<rparr>"

definition message :: "string \<Rightarrow> jsval" where
  "message m = JObj [(''message'', JStr m)]"

text \<open>\<^verbatim>\<open>try { ... } catch (error) { res.status(..).json(..) }\<close>, the frame of every handler.\<close>

definition try_catch :: "response comp \<Rightarrow> (exn \<Rightarrow> response) \<Rightarrow> result" where
  "try_catch m h =
     (case m of
        (Inr r, cs) \<Rightarrow> (Respond r, cs)
      | (Inl e, cs) \<Rightarrow> (Respond (h e), cs))"

definition failed :: "string \<Rightarrow> exn \<Rightarrow> response" where
  "failed m error = \<lparr>status = 500, res_body = message m\<rparr>"

text \<open>\<^verbatim>\<open>jobs.filter(p)\<close> on a storage result; the predicate may throw on an element.\<close>

fun filter_js :: "(jsval \<Rightarrow> exn + bool) \<Rightarrow> jsval list \<Rightarrow> exn + jsval list" where
  "filter_js p [] = Inr []"
| "filter_js p (x # xs) =
     (case p x of
        Inl e \<Rightarrow> Inl e
      | Inr b \<Rightarrow> (case filter_js p xs of Inl e \<Rightarrow> Inl e | Inr ys \<Rightarrow> Inr (if b then x # ys else ys)))"

fun array_filter :: "(jsval \<Rightarrow> exn + bool) \<Rightarrow> jsval \<Rightarrow> exn + jsval list" where
  "array_filter p (JArr xs) = filter_js p xs"
| "array_filter p JUndefined = Inl (TypeError ''Cannot read properties of undefined (reading filter)'')"
| "array_filter p JNull = Inl (TypeError ''Cannot read properties of null (reading filter)'')"
| "array_filter p v = Inl (TypeError ''filter is not a function'')"

text \<open>Object spread \<^verbatim>\<open>{ ...v }\<close> of a value: the own properties of an object.\<close>

fun indexed :: "nat \<Rightarrow> jsval list \<Rightarrow> (string \<times> jsval) list" where
  "indexed i [] = []"
| "indexed i (x # xs) = (show_nat i, x) # indexed (Suc i) xs"

fun spread :: "jsval \<Rightarrow> (string \<times> jsval) list" where
  "spread (JObj kvs) = kvs"
| "spread (JArr xs) = indexed 0 xs"
| "spread (JStr s) = indexed 0 (map (\<lambda>c. JStr [c]) s)"
| "spread v = []"

subsection \<open>Middleware\<close>

text \<open>
  \<^verbatim>\<open>isAuthenticated\<close> (lines 106-112): with a session user the request goes on, the
  user set on it; without one the answer is 401.
\<close>

definition isAuthenticated :: "request \<Rightarrow> (request \<Rightarrow> result) \<Rightarrow> result" where
  "isAuthenticated req next_handler =
     (if truthy (session_user req) then next_handler (req\<lparr>user := session_user req\<rparr>)
      else (Respond \<lparr>status = 401, res_body = message ''Authentication required''\<rparr>, []))"

definition customAuth :: "request \<Rightarrow> (request \<Rightarrow> result) \<Rightarrow> result" where
  "customAuth = isAuthenticated"

text \<open>
  The two \<^verbatim>\<open>multer\<close> configurations (lines 24-55). The file filter is the source's; the
  middleware around it is the library's: a file in another field than the one named,
  a file the filter refuses and a file over the size limit each pass an error on, and a
  request without file goes on with \<^verbatim>\<open>req.file\<close> undefined.
\<close>

definition upload_fileFilter :: "file_part \<Rightarrow> exn option" where
  "upload_fileFilter f =
     (let allowedTypes = [''.pdf'', ''.doc'', ''.docx''];
          ext = toLowerCase (extname (originalname f))
      in if ext \<in> set allowedTypes then None
         else Some (Error ''Only PDF, DOC, and DOCX files are allowed''))"

definition imageUpload_fileFilter :: "file_part \<Rightarrow> exn option" where
  "imageUpload_fileFilter f =
     (let allowedTypes = [''.jpg'', ''.jpeg'', ''.png'', ''.gif''];
          ext = toLowerCase (extname (originalname f))
      in if ext \<in> set allowedTypes then None
         else Some (Error ''Only JPG, JPEG, PNG, and GIF images are allowed''))"

definition multer_single ::
  "(file_part \<Rightarrow> exn option) \<Rightarrow> nat \<Rightarrow> string \<Rightarrow> request \<Rightarrow> (request \<Rightarrow> result) \<Rightarrow> result" where
  "multer_single fileFilter fileSize field req next_handler =
     (case upload_part req of
        None \<Rightarrow> next_handler (req\<lparr>req_file := None\<rparr>)
      | Some f \<Rightarrow>
          if fieldname f \<noteq> field then (NextError (Error ''Unexpected field''), [])
          else (case fileFilter f of
                  Some e \<Rightarrow> (NextError e, [])
                | None \<Rightarrow>
                    if size_bytes f > fileSize then (NextError (Error ''File too large''), [])
                    else next_handler (req\<lparr>req_file := Some f\<rparr>)))"

definition upload_single :: "string \<Rightarrow> request \<Rightarrow> (request \<Rightarrow> result) \<Rightarrow> result" where
  "upload_single = multer_single upload_fileFilter (5 * 1024 * 1024)"

definition imageUpload_single :: "string \<Rightarrow> request \<Rightarrow> (request \<Rightarrow> result) \<Rightarrow> result" where
  "imageUpload_single = multer_single imageUpload_fileFilter (2 * 1024 * 1024)"

text \<open>
  The schemas of \<^verbatim>\<open>@shared/schema\<close> are not part of the sources at hand. A handler uses a
  schema only through \<^verbatim>\<open>schema.parse(x)\<close>, which returns the validated data or throws; the
  ten schemas, and the partial job schema of the admin route, are parameters.
\<close>

type_synonym parser = "jsval \<Rightarrow> exn + jsval"

record schemas =
  insertExperienceSchema :: parser
  insertEducationSchema :: parser
  insertSkillSchema :: parser
  insertCompanySchema :: parser
  insertJobSchema :: parser
  insertJobSchema_partial :: parser
  insertJobApplicationSchema :: parser
  insertConnectionSchema :: parser
  insertMessageSchema :: parser
  insertGroupSchema :: parser
  insertVendorSchema :: parser

section \<open>The route handlers of \<^verbatim>\<open>registerRoutes\<close>, in the order of registration\<close>

text \<open>\<^verbatim>\<open>GET /api/companies/:id/details\<close> (lines 67-89).\<close>

definition isActive_true :: "jsval \<Rightarrow> exn + bool" where
  "isActive_true job = (case get_prop job ''isActive'' of Inl e \<Rightarrow> Inl e | Inr v \<Rightarrow> Inr (v = JBool True))"

definition get_api_companies_id_details :: "storage \<Rightarrow> request \<Rightarrow> result" where
  "get_api_companies_id_details st req = try_catch
     (let companyId = parseInt (req_param req ''id'') in
      if isNaN companyId then json 400 (message ''Invalid company ID'')
      else
        bindc (call st ''getJobsByCompany'' [companyId]) (\<lambda>jobs.
        bindc (lift (array_filter isActive_true jobs)) (\<lambda>openJobs.
        bindc (call st ''getClientVendors'' [companyId]) (\<lambda>vendors.
        json 200 (JObj [(''openJobs'', JArr openJobs), (''vendors'', vendors)])))))
     (failed ''Failed to fetch company details'')"

text \<open>\<^verbatim>\<open>GET /api/test-db-connection\<close> (lines 92-103).\<close>

definition get_api_test_db_connection :: "storage \<Rightarrow> request \<Rightarrow> result" where
  "get_api_test_db_connection st req = try_catch
     (bindc (call st ''getUserByEmail'' [JStr ''test@example.com'']) (\<lambda>result.
      json 200 (JObj [(''status'', JStr ''success''),
                      (''userFound'', JBool (truthy result)),
                      (''userEmail'', js_or (get_prop_opt result ''email'') (JStr ''not found''))])))
     (\<lambda>error. \<lparr>status = 500,
                res_body = JObj [(''status'', JStr ''error''), (''error'', JStr (exn_message error))]\<rparr>)"

text \<open>\<^verbatim>\<open>GET /api/search\<close> (lines 119-140).\<close>

definition get_api_search :: "storage \<Rightarrow> request \<Rightarrow> result" where
  "get_api_search st req = try_catch
     (let query = js_or (req_query req ''q'') (req_query req ''query'') in
      if \<not> truthy query then json 200 (JObj [(''companies'', JArr []), (''jobs'', JArr [])])
      else
        bindc (lift (js_trim query)) (\<lambda>trimmed.
        if length trimmed < 3 then json 200 (JObj [(''companies'', JArr []), (''jobs'', JArr [])])
        else
          bindc (promise_all2 st (''searchCompanies'', [query, JNum 10])
                                 (''searchJobs'', [query, JObj [], JNum 10])) (\<lambda>(companies, jobs).
          json 200 (JObj [(''companies'', js_or companies (JArr [])),
                          (''jobs'', js_or jobs (JArr []))]))))
     (failed ''Search failed'')"

text \<open>Profile routes (lines 143-166).\<close>

definition get_api_profile_id :: "storage \<Rightarrow> request \<Rightarrow> result" where
  "get_api_profile_id st req = try_catch
     (bindc (call st ''getUserProfile'' [req_param req ''id'']) (\<lambda>profile.
      if \<not> truthy profile then json 404 (message ''Profile not found'')
      else json 200 profile))
     (failed ''Failed to fetch profile'')"

definition put_api_profile :: "storage \<Rightarrow> request \<Rightarrow> result" where
  "put_api_profile st req0 = customAuth req0 (\<lambda>req. try_catch
     (bindc (lift (get_prop (user req) ''id'')) (\<lambda>userId.
      let updateData = JObj (req_body req) in
      bindc (call st ''updateUserProfile'' [userId, updateData]) (\<lambda>user.
      json 200 user)))
     (failed ''Failed to update profile''))"

text \<open>Experience routes (lines 169-212).\<close>

definition get_api_experiences :: "storage \<Rightarrow> request \<Rightarrow> result" where
  "get_api_experiences st req0 = isAuthenticated req0 (\<lambda>req. try_catch
     (bindc (lift (get_prop (user req) ''id'')) (\<lambda>userId.
      bindc (call st ''getUserExperiences'' [userId]) (\<lambda>experiences.
      json 200 experiences)))
     (failed ''Failed to fetch experiences''))"

definition post_api_experiences :: "schemas \<Rightarrow> storage \<Rightarrow> request \<Rightarrow> result" where
  "post_api_experiences sch st req0 = isAuthenticated req0 (\<lambda>req. try_catch
     (bindc (lift (get_prop (user req) ''id'')) (\<lambda>userId.
      bindc (lift (insertExperienceSchema sch (JObj (obj_set (req_body req) ''userId'' userId)))) (\<lambda>validatedData.
      bindc (call st ''addExperience'' [validatedData]) (\<lambda>experience.
      json 200 experience))))
     (failed ''Failed to add experience''))"

definition put_api_experiences_id :: "storage \<Rightarrow> request \<Rightarrow> result" where
  "put_api_experiences_id st req0 = isAuthenticated req0 (\<lambda>req. try_catch
     (let id = parseInt (req_param req ''id'') in
      bindc (call st ''updateExperience'' [id, JObj (req_body req)]) (\<lambda>experience.
      json 200 experience))
     (failed ''Failed to update experience''))"

definition delete_api_experiences_id :: "storage \<Rightarrow> request \<Rightarrow> result" where
  "delete_api_experiences_id st req0 = isAuthenticated req0 (\<lambda>req. try_catch
     (let id = parseInt (req_param req ''id'') in
      bindc (call st ''deleteExperience'' [id]) (\<lambda>_.
      json 200 (message ''Experience deleted successfully'')))
     (failed ''Failed to delete experience''))"

text \<open>Education routes (lines 215-258).\<close>

definition get_api_education :: "storage \<Rightarrow> request \<Rightarrow> result" where
  "get_api_education st req0 = isAuthenticated req0 (\<lambda>req. try_catch
     (bindc (lift (get_prop (user req) ''id'')) (\<lambda>userId.
      bindc (call st ''getUserEducation'' [userId]) (\<lambda>education.
      json 200 education)))
     (failed ''Failed to fetch education''))"

definition post_api_education :: "schemas \<Rightarrow> storage \<Rightarrow> request \<Rightarrow> result" where
  "post_api_education sch st req0 = isAuthenticated req0 (\<lambda>req. try_catch
     (bindc (lift (get_prop (user req) ''id'')) (\<lambda>userId.
      bindc (lift (insertEducationSchema sch (JObj (obj_set (req_body req) ''userId'' userId)))) (\<lambda>validatedData.
      bindc (call st ''addEducation'' [validatedData]) (\<lambda>education.
      json 200 education))))
     (failed ''Failed to add education''))"

definition put_api_education_id :: "storage \<Rightarrow> request \<Rightarrow> result" where
  "put_api_education_id st req0 = isAuthenticated req0 (\<lambda>req. try_catch
     (let id = parseInt (req_param req ''id'') in
      bindc (call st ''updateEducation'' [id, JObj (req_body req)]) (\<lambda>education.
      json 200 education))
     (failed ''Failed to update education''))"

definition delete_api_education_id :: "storage \<Rightarrow> request \<Rightarrow> result" where
  "delete_api_education_id st req0 = isAuthenticated req0 (\<lambda>req. try_catch
     (let id = parseInt (req_param req ''id'') in
      bindc (call st ''deleteEducation'' [id]) (\<lambda>_.
      json 200 (message ''Education deleted successfully'')))
     (failed ''Failed to delete education''))"

text \<open>Skills routes (lines 261-293).\<close>

definition get_api_skills :: "storage \<Rightarrow> request \<Rightarrow> result" where
  "get_api_skills st req0 = isAuthenticated req0 (\<lambda>req. try_catch
     (bindc (lift (get_prop (user req) ''id'')) (\<lambda>userId.
      bindc (call st ''getUserSkills'' [userId]) (\<lambda>skills.
      json 200 skills)))
     (failed ''Failed to fetch skills''))"

definition post_api_skills :: "schemas \<Rightarrow> storage \<Rightarrow> request \<Rightarrow> result" where
  "post_api_skills sch st req0 = isAuthenticated req0 (\<lambda>req. try_catch
     (bindc (lift (get_prop (user req) ''id'')) (\<lambda>userId.
      bindc (lift (insertSkillSchema sch (JObj (obj_set (req_body req) ''userId'' userId)))) (\<lambda>validatedData.
      bindc (call st ''addSkill'' [validatedData]) (\<lambda>skill.
      json 200 skill))))
     (failed ''Failed to add skill''))"

definition delete_api_skills_id :: "storage \<Rightarrow> request \<Rightarrow> result" where
  "delete_api_skills_id st req0 = isAuthenticated req0 (\<lambda>req. try_catch
     (let id = parseInt (req_param req ''id'') in
      bindc (call st ''deleteSkill'' [id]) (\<lambda>_.
      json 200 (message ''Skill deleted successfully'')))
     (failed ''Failed to delete skill''))"

text \<open>Company routes (lines 296-379). \<^verbatim>\<open>GET /api/companies/all\<close> is registered twice.\<close>

definition get_api_companies_all :: "storage \<Rightarrow> request \<Rightarrow> result" where
  "get_api_companies_all st req = try_catch
     (bindc (call st ''getCompanies'' [JNum 50000]) (\<lambda>companies.
      json 200 companies))
     (failed ''Failed to fetch all companies'')"

definition get_api_companies_all_2 :: "storage \<Rightarrow> request \<Rightarrow> result" where
  "get_api_companies_all_2 st req = try_catch
     (bindc (call st ''getCompanies'' [JNum 50000]) (\<lambda>companies.
      json 200 companies))
     (failed ''Failed to fetch companies'')"

text \<open>
  \<^verbatim>\<open>GET /api/companies\<close> (lines 318-350). The debug output of the search branch and of
  the limit branch reads \<^verbatim>\<open>companies.length\<close>, which throws on \<^verbatim>\<open>null\<close> and
  \<^verbatim>\<open>undefined\<close>; the last branch does not read it.
\<close>

definition get_api_companies :: "storage \<Rightarrow> request \<Rightarrow> result" where
  "get_api_companies st req = try_catch
     (let query = req_query req ''q'';
          limit = (if truthy (req_query req ''limit'') then parseInt (req_query req ''limit'') else JNum 0)
      in
      if truthy query \<and> query \<noteq> JStr ''undefined'' \<and> num_ge (js_length query) 2 then
        let searchLimit = (if num_gt limit 100 then math_min limit 1000 else JNum 100) in
        bindc (call st ''searchCompanies'' [query, searchLimit]) (\<lambda>companies.
        bindc (lift (get_length companies)) (\<lambda>_.
        json 200 companies))
      else if num_gt limit 0 then
        let actualLimit = (if num_ge limit 50000 then JNum 50000 else limit) in
        bindc (call st ''getCompanies'' [actualLimit]) (\<lambda>companies.
        bindc (lift (get_length companies)) (\<lambda>_.
        json 200 companies))
      else
        bindc (call st ''getCompanies'' [JNum 100]) (\<lambda>companies.
        json 200 companies))
     (failed ''Failed to fetch companies'')"

definition get_api_companies_pending :: "storage \<Rightarrow> request \<Rightarrow> result" where
  "get_api_companies_pending st req = try_catch
     (bindc (call st ''getPendingCompanies'' []) (\<lambda>pendingCompanies.
      json 200 pendingCompanies))
     (failed ''Failed to fetch pending companies'')"

definition get_api_companies_id :: "storage \<Rightarrow> request \<Rightarrow> result" where
  "get_api_companies_id st req = try_catch
     (let id = parseInt (req_param req ''id'') in
      if isNaN id then json 400 (message ''Invalid company ID'')
      else
        bindc (call st ''getCompany'' [id]) (\<lambda>company.
        if \<not> truthy company then json 404 (message ''Company not found'')
        else json 200 company))
     (failed ''Failed to fetch company'')"

text \<open>
  \<^verbatim>\<open>POST /api/upload/company-logo\<close> (lines 382-405). \<^verbatim>\<open>req.file.path\<close> is the file under
  the \<^verbatim>\<open>dest\<close> directory of the configuration, \<^verbatim>\<open>uploads/\<close>.
\<close>

definition post_api_upload_company_logo :: "storage \<Rightarrow> request \<Rightarrow> result" where
  "post_api_upload_company_logo st req0 = imageUpload_single ''logo'' req0 (\<lambda>req. try_catch
     (case req_file req of
        None \<Rightarrow> json 400 (message ''No file uploaded'')
      | Some f \<Rightarrow>
          let timestamp = date_now req;
              ext = extname (originalname f);
              filename' = ''company-logo-'' @ show_nat timestamp @ ext;
              logoUrl = ''/logos/'' @ filename';
              oldPath = ''uploads/'' @ filename f;
              newPath = ''logos/'' @ filename'
          in (case fs_renameSync req oldPath newPath of
                Some e \<Rightarrow> lift (Inl e)
              | None \<Rightarrow> json 200 (JObj [(''logoUrl'', JStr logoUrl)])))
     (failed ''Failed to upload logo''))"

text \<open>\<^verbatim>\<open>POST /api/companies\<close> (lines 407-418).\<close>

definition post_api_companies :: "schemas \<Rightarrow> storage \<Rightarrow> request \<Rightarrow> result" where
  "post_api_companies sch st req = try_catch
     (let userId = JStr ''admin-krupa'' in
      bindc (lift (insertCompanySchema sch (JObj (obj_set (req_body req) ''userId'' userId)))) (\<lambda>validatedData.
      bindc (call st ''createCompany'' [validatedData]) (\<lambda>company.
      json 200 company)))
     (failed ''Failed to create company'')"

text \<open>\<^verbatim>\<open>PATCH /api/companies/:id/status\<close> (lines 421-439), approve and reject (lines 442-475).\<close>

definition patch_api_companies_id_status :: "storage \<Rightarrow> request \<Rightarrow> result" where
  "patch_api_companies_id_status st req = try_catch
     (let userId = JStr ''admin-krupa'';
          companyId = parseInt (req_param req ''id'');
          status' = obj_get (req_body req) ''status'';
          approvedBy = obj_get (req_body req) ''approvedBy''
      in
      if isNaN companyId then json 400 (message ''Invalid company ID'')
      else
        bindc (call st ''updateCompanyStatus'' [companyId, status', js_or approvedBy userId]) (\<lambda>company.
        json 200 company))
     (failed ''Failed to update company status'')"

definition put_api_companies_id_approve :: "storage \<Rightarrow> request \<Rightarrow> result" where
  "put_api_companies_id_approve st req = try_catch
     (let companyId = parseInt (req_param req ''id'');
          userId = JStr ''admin-krupa''
      in
      if isNaN companyId then json 400 (message ''Invalid company ID'')
      else
        bindc (call st ''updateCompanyStatus'' [companyId, JStr ''approved'', userId]) (\<lambda>company.
        json 200 company))
     (failed ''Failed to approve company'')"

definition put_api_companies_id_reject :: "storage \<Rightarrow> request \<Rightarrow> result" where
  "put_api_companies_id_reject st req = try_catch
     (let companyId = parseInt (req_param req ''id'');
          userId = JStr ''admin-krupa''
      in
      if isNaN companyId then json 400 (message ''Invalid company ID'')
      else
        bindc (call st ''updateCompanyStatus'' [companyId, JStr ''rejected'', userId]) (\<lambda>company.
        json 200 company))
     (failed ''Failed to reject company'')"

text \<open>\<^verbatim>\<open>GET /api/admin/stats\<close> (lines 478-501).\<close>

definition status_not_closed :: "jsval \<Rightarrow> exn + bool" where
  "status_not_closed job =
     (case get_prop job ''status'' of Inl e \<Rightarrow> Inl e | Inr v \<Rightarrow> Inr (v \<noteq> JStr ''closed''))"

definition get_api_admin_stats :: "storage \<Rightarrow> request \<Rightarrow> result" where
  "get_api_admin_stats st req0 = isAuthenticated req0 (\<lambda>req. try_catch
     (bindc (lift (get_prop (user req) ''email'')) (\<lambda>userEmail.
      if userEmail \<noteq> JStr ''krupas@vedsoft.com'' \<and> userEmail \<noteq> JStr ''krupashankar@gmail.com''
      then json 403 (message ''Access denied'')
      else
        bindc (call st ''getJobs'' [JObj [], JNum 1000]) (\<lambda>jobs.
        bindc (lift (array_filter status_not_closed jobs)) (\<lambda>active.
        let activeJobs = JNum (int (length active)) in
        json 200 (JObj [(''activeJobs'', activeJobs), (''totalUsers'', JNum 0),
                        (''revenue'', JNum 0), (''activeSessions'', JNum 0)])))))
     (failed ''Failed to fetch stats''))"

text \<open>Vendor routes without authentication (lines 504-533) and \<^verbatim>\<open>PUT /api/companies/:id\<close>.\<close>

definition post_api_vendors :: "storage \<Rightarrow> request \<Rightarrow> result" where
  "post_api_vendors st req = try_catch
     (let vendorData = JObj (obj_set (req_body req) ''createdBy'' (JStr ''admin-krupa'')) in
      bindc (call st ''addVendor'' [vendorData]) (\<lambda>vendor.
      json 200 vendor))
     (failed ''Failed to add vendor'')"

definition get_api_companies_id_vendors :: "storage \<Rightarrow> request \<Rightarrow> result" where
  "get_api_companies_id_vendors st req = try_catch
     (let companyId = parseInt (req_param req ''id'') in
      if isNaN companyId then json 400 (message ''Invalid company ID'')
      else
        bindc (call st ''getClientVendors'' [companyId]) (\<lambda>vendors.
        json 200 vendors))
     (failed ''Failed to fetch vendors'')"

definition put_api_companies_id :: "storage \<Rightarrow> request \<Rightarrow> result" where
  "put_api_companies_id st req0 = isAuthenticated req0 (\<lambda>req. try_catch
     (let id = parseInt (req_param req ''id'') in
      bindc (call st ''updateCompany'' [id, JObj (req_body req)]) (\<lambda>company.
      json 200 company))
     (failed ''Failed to update company''))"

text \<open>
  Job routes (lines 547-676). \<^verbatim>\<open>GET /api/jobs/:id\<close> and \<^verbatim>\<open>PUT /api/jobs/:id\<close> are each
  registered twice, with different handlers.
\<close>

definition get_api_jobs_id :: "storage \<Rightarrow> request \<Rightarrow> result" where
  "get_api_jobs_id st req = try_catch
     (let jobId = parseInt (req_param req ''id'') in
      bindc (call st ''getJob'' [jobId]) (\<lambda>job.
      if \<not> truthy job then json 404 (JObj [(''error'', JStr ''Job not found'')])
      else json 200 job))
     (\<lambda>error. \<lparr>status = 500, res_body = JObj [(''error'', JStr ''Failed to fetch job'')]\<rparr>)"

definition get_api_jobs :: "storage \<Rightarrow> request \<Rightarrow> result" where
  "get_api_jobs st req = try_catch
     (let filters = JObj
            [(''jobType'', req_query req ''jobType''),
             (''experienceLevel'', req_query req ''experienceLevel''),
             (''location'', req_query req ''location''),
             (''companyId'', if truthy (req_query req ''companyId'')
                             then parseInt (req_query req ''companyId'') else JUndefined)];
          limit = (if truthy (req_query req ''limit'') then parseInt (req_query req ''limit'') else JNum 50)
      in
      if truthy (req_query req ''search'') then
        bindc (call st ''searchJobs'' [req_query req ''search'', filters]) (\<lambda>jobs.
        bindc (lift (get_length jobs)) (\<lambda>_.
        json 200 jobs))
      else
        bindc (call st ''getJobs'' [filters, limit]) (\<lambda>jobs.
        bindc (lift (get_length jobs)) (\<lambda>_.
        json 200 jobs)))
     (failed ''Failed to fetch jobs'')"

definition get_api_jobs_id_2 :: "storage \<Rightarrow> request \<Rightarrow> result" where
  "get_api_jobs_id_2 st req = try_catch
     (let id = parseInt (req_param req ''id'') in
      bindc (call st ''getJob'' [id]) (\<lambda>job.
      if \<not> truthy job then json 404 (message ''Job not found'')
      else json 200 job))
     (failed ''Failed to fetch job'')"

definition put_api_jobs_id :: "schemas \<Rightarrow> storage \<Rightarrow> request \<Rightarrow> result" where
  "put_api_jobs_id sch st req0 = isAuthenticated req0 (\<lambda>req. try_catch
     (let jobId = parseInt (req_param req ''id'') in
      bindc (lift (insertJobSchema sch (JObj (req_body req)))) (\<lambda>jobData.
      bindc (call st ''updateJob'' [jobId, jobData]) (\<lambda>updatedJob.
      json 200 updatedJob)))
     (\<lambda>error. \<lparr>status = 500, res_body = JObj [(''error'', JStr ''Failed to update job'')]\<rparr>))"

text \<open>
  \<^verbatim>\<open>POST /api/jobs\<close> (lines 620-654). \<open>job_data\<close> is the object the handler builds from
  the body before validation (lines 628-635).
\<close>

definition job_data :: "(string \<times> jsval) list \<Rightarrow> (string \<times> jsval) list" where
  "job_data body =
     (let userId = JStr ''admin-krupa'';
          jobData = obj_set (obj_set body ''recruiterId'' userId)
                      ''employmentType'' (js_or (obj_get body ''jobType'') (JStr ''full_time''))
      in
      if truthy (obj_get jobData ''city'') \<and> truthy (obj_get jobData ''state'')
           \<and> truthy (obj_get jobData ''country'')
      then obj_set jobData ''location''
             (JStr (to_string (obj_get jobData ''city'') @ '', '' @ to_string (obj_get jobData ''state'')
                    @ '', '' @ to_string (obj_get jobData ''country'')))
      else jobData)"

definition post_api_jobs :: "schemas \<Rightarrow> storage \<Rightarrow> request \<Rightarrow> result" where
  "post_api_jobs sch st req = try_catch
     (let jobData = job_data (req_body req) in
      bindc (lift (insertJobSchema sch (JObj jobData))) (\<lambda>validatedData.
      bindc (call st ''createJob'' [validatedData]) (\<lambda>job.
      json 200 job)))
     (\<lambda>error. \<lparr>status = 500,
                res_body = JObj [(''message'', JStr ''Failed to create job''),
                                 (''error'', JStr (exn_message error)),
                                 (''details'', js_or (exn_errors error) (JArr []))]\<rparr>)"

definition put_api_jobs_id_2 :: "storage \<Rightarrow> request \<Rightarrow> result" where
  "put_api_jobs_id_2 st req0 = isAuthenticated req0 (\<lambda>req. try_catch
     (let id = parseInt (req_param req ''id'') in
      bindc (call st ''updateJob'' [id, JObj (req_body req)]) (\<lambda>job.
      json 200 job))
     (failed ''Failed to update job''))"

definition delete_api_jobs_id :: "storage \<Rightarrow> request \<Rightarrow> result" where
  "delete_api_jobs_id st req0 = isAuthenticated req0 (\<lambda>req. try_catch
     (let id = parseInt (req_param req ''id'') in
      bindc (call st ''deleteJob'' [id]) (\<lambda>_.
      json 200 (message ''Job deleted successfully'')))
     (failed ''Failed to delete job''))"

text \<open>Job application routes (lines 679-747).\<close>

definition get_api_applications :: "storage \<Rightarrow> request \<Rightarrow> result" where
  "get_api_applications st req0 = isAuthenticated req0 (\<lambda>req. try_catch
     (bindc (lift (get_prop (user req) ''id'')) (\<lambda>userId.
      bindc (call st ''getUserJobApplications'' [userId]) (\<lambda>applications.
      bindc (lift (get_length applications)) (\<lambda>_.
      json 200 applications))))
     (failed ''Failed to fetch applications''))"

definition get_api_jobs_id_applications :: "storage \<Rightarrow> request \<Rightarrow> result" where
  "get_api_jobs_id_applications st req0 = isAuthenticated req0 (\<lambda>req. try_catch
     (let jobId = parseInt (req_param req ''id'') in
      bindc (call st ''getJobApplications'' [jobId]) (\<lambda>applications.
      json 200 applications))
     (failed ''Failed to fetch job applications''))"

definition post_api_applications :: "schemas \<Rightarrow> storage \<Rightarrow> request \<Rightarrow> result" where
  "post_api_applications sch st req0 =
     isAuthenticated req0 (\<lambda>req1. upload_single ''resume'' req1 (\<lambda>req. try_catch
       (bindc (lift (get_prop (user req) ''id'')) (\<lambda>userId.
        let resumeUrl = (case req_file req of
                           Some f \<Rightarrow> JStr (''/uploads/'' @ filename f)
                         | None \<Rightarrow> JNull);
            data = obj_set (obj_set (obj_set (req_body req)
                     ''jobId'' (parseInt (obj_get (req_body req) ''jobId'')))
                     ''applicantId'' userId)
                     ''resumeUrl'' resumeUrl
        in
        bindc (lift (insertJobApplicationSchema sch (JObj data))) (\<lambda>validatedData.
        bindc (call st ''createJobApplication'' [validatedData]) (\<lambda>application.
        json 200 application))))
       (\<lambda>error.
          if instanceof_ZodError error
          then \<lparr>status = 400,
                res_body = JObj [(''message'', JStr ''Invalid application data''),
                                 (''errors'', exn_errors error)]\<rparr>
          else \<lparr>status = 500, res_body = message ''Failed to create application''\<rparr>)))"

definition patch_api_applications_id_status :: "storage \<Rightarrow> request \<Rightarrow> result" where
  "patch_api_applications_id_status st req = try_catch
     (let id = parseInt (req_param req ''id'');
          status' = obj_get (req_body req) ''status''
      in
      bindc (call st ''updateJobApplicationStatus'' [id, status']) (\<lambda>application.
      json 200 application))
     (failed ''Failed to update application status'')"

definition delete_api_applications_id :: "storage \<Rightarrow> request \<Rightarrow> result" where
  "delete_api_applications_id st req = try_catch
     (let id = parseInt (req_param req ''id'') in
      bindc (call st ''deleteJobApplication'' [id]) (\<lambda>_.
      json 200 (message ''Application withdrawn successfully'')))
     (failed ''Failed to withdraw application'')"

text \<open>Connection routes (lines 750-797).\<close>

definition get_api_connections :: "storage \<Rightarrow> request \<Rightarrow> result" where
  "get_api_connections st req0 = isAuthenticated req0 (\<lambda>req. try_catch
     (bindc (lift (get_prop (user req) ''id'')) (\<lambda>userId.
      bindc (call st ''getUserConnections'' [userId]) (\<lambda>connections.
      json 200 connections)))
     (failed ''Failed to fetch connections''))"

definition get_api_connection_requests :: "storage \<Rightarrow> request \<Rightarrow> result" where
  "get_api_connection_requests st req0 = isAuthenticated req0 (\<lambda>req. try_catch
     (bindc (lift (get_prop (user req) ''id'')) (\<lambda>userId.
      bindc (call st ''getConnectionRequests'' [userId]) (\<lambda>requests.
      json 200 requests)))
     (failed ''Failed to fetch connection requests''))"

definition post_api_connections :: "schemas \<Rightarrow> storage \<Rightarrow> request \<Rightarrow> result" where
  "post_api_connections sch st req0 = isAuthenticated req0 (\<lambda>req. try_catch
     (bindc (lift (get_prop (user req) ''id'')) (\<lambda>userId.
      bindc (lift (insertConnectionSchema sch (JObj (obj_set (req_body req) ''requesterId'' userId)))) (\<lambda>validatedData.
      bindc (call st ''createConnection'' [validatedData]) (\<lambda>connection.
      json 200 connection))))
     (failed ''Failed to create connection''))"

definition put_api_connections_id_status :: "storage \<Rightarrow> request \<Rightarrow> result" where
  "put_api_connections_id_status st req0 = isAuthenticated req0 (\<lambda>req. try_catch
     (let id = parseInt (req_param req ''id'');
          status' = obj_get (req_body req) ''status''
      in
      bindc (call st ''updateConnectionStatus'' [id, status']) (\<lambda>connection.
      json 200 connection))
     (failed ''Failed to update connection status''))"

text \<open>Message routes (lines 800-847).\<close>

definition get_api_conversations :: "storage \<Rightarrow> request \<Rightarrow> result" where
  "get_api_conversations st req0 = isAuthenticated req0 (\<lambda>req. try_catch
     (bindc (lift (get_prop (user req) ''id'')) (\<lambda>userId.
      bindc (call st ''getConversations'' [userId]) (\<lambda>conversations.
      json 200 conversations)))
     (failed ''Failed to fetch conversations''))"

definition get_api_messages_userId :: "storage \<Rightarrow> request \<Rightarrow> result" where
  "get_api_messages_userId st req0 = isAuthenticated req0 (\<lambda>req. try_catch
     (bindc (lift (get_prop (user req) ''id'')) (\<lambda>userId.
      let otherUserId = req_param req ''userId'' in
      bindc (call st ''getUserMessages'' [userId, otherUserId]) (\<lambda>messages.
      json 200 messages)))
     (failed ''Failed to fetch messages''))"

definition post_api_messages :: "schemas \<Rightarrow> storage \<Rightarrow> request \<Rightarrow> result" where
  "post_api_messages sch st req0 = isAuthenticated req0 (\<lambda>req. try_catch
     (bindc (lift (get_prop (user req) ''id'')) (\<lambda>userId.
      bindc (lift (insertMessageSchema sch (JObj (obj_set (req_body req) ''senderId'' userId)))) (\<lambda>validatedData.
      bindc (call st ''createMessage'' [validatedData]) (\<lambda>message'.
      json 200 message'))))
     (failed ''Failed to create message''))"

definition put_api_messages_id_read :: "storage \<Rightarrow> request \<Rightarrow> result" where
  "put_api_messages_id_read st req0 = isAuthenticated req0 (\<lambda>req. try_catch
     (let id = parseInt (req_param req ''id'') in
      bindc (call st ''markMessageAsRead'' [id]) (\<lambda>message'.
      json 200 message'))
     (failed ''Failed to mark message as read''))"

text \<open>Group routes (lines 850-897).\<close>

definition get_api_groups :: "storage \<Rightarrow> request \<Rightarrow> result" where
  "get_api_groups st req = try_catch
     (let limit = (if truthy (req_query req ''limit'') then parseInt (req_query req ''limit'') else JNum 20) in
      bindc (call st ''getGroups'' [limit]) (\<lambda>groups.
      json 200 groups))
     (failed ''Failed to fetch groups'')"

definition get_api_user_groups :: "storage \<Rightarrow> request \<Rightarrow> result" where
  "get_api_user_groups st req0 = isAuthenticated req0 (\<lambda>req. try_catch
     (bindc (lift (get_prop (user req) ''id'')) (\<lambda>userId.
      bindc (call st ''getUserGroups'' [userId]) (\<lambda>groups.
      json 200 groups)))
     (failed ''Failed to fetch user groups''))"

definition post_api_groups :: "schemas \<Rightarrow> storage \<Rightarrow> request \<Rightarrow> result" where
  "post_api_groups sch st req0 = isAuthenticated req0 (\<lambda>req. try_catch
     (bindc (lift (get_prop (user req) ''id'')) (\<lambda>userId.
      bindc (lift (insertGroupSchema sch (JObj (obj_set (req_body req) ''createdBy'' userId)))) (\<lambda>validatedData.
      bindc (call st ''createGroup'' [validatedData]) (\<lambda>group.
      json 200 group))))
     (failed ''Failed to create group''))"

definition post_api_groups_id_join :: "storage \<Rightarrow> request \<Rightarrow> result" where
  "post_api_groups_id_join st req0 = isAuthenticated req0 (\<lambda>req. try_catch
     (bindc (lift (get_prop (user req) ''id'')) (\<lambda>userId.
      let groupId = parseInt (req_param req ''id'') in
      bindc (call st ''joinGroup'' [groupId, userId]) (\<lambda>_.
      json 200 (message ''Successfully joined group''))))
     (failed ''Failed to join group''))"

text \<open>\<^verbatim>\<open>GET /api/search/:query\<close> (lines 900-928).\<close>

definition get_api_search_query :: "storage \<Rightarrow> request \<Rightarrow> result" where
  "get_api_search_query st req = try_catch
     (let query = req_param req ''query'';
          limit = (if truthy (req_query req ''limit'') then parseInt (req_query req ''limit'') else JNum 10)
      in
      if \<not> truthy query \<or> num_lt (js_length query) 2
      then json 200 (JObj [(''companies'', JArr []), (''jobs'', JArr [])])
      else
        bindc (promise_all2 st (''searchCompanies'', [query, limit])
                               (''searchJobs'', [query, JObj [(''limit'', limit)]])) (\<lambda>(companies, jobs).
        json 200 (JObj [(''companies'', js_or companies (JArr [])),
                        (''jobs'', js_or jobs (JArr [])),
                        (''total'', js_add (js_or (opt_length companies) (JNum 0))
                                           (js_or (opt_length jobs) (JNum 0)))])))
     (\<lambda>error. \<lparr>status = 500,
                res_body = JObj [(''message'', JStr ''Failed to perform search''),
                                 (''companies'', JArr []), (''jobs'', JArr [])]\<rparr>)"

text \<open>Vendor routes behind authentication (lines 931-957).\<close>

definition get_api_clients_id_vendors :: "storage \<Rightarrow> request \<Rightarrow> result" where
  "get_api_clients_id_vendors st req0 = isAuthenticated req0 (\<lambda>req. try_catch
     (let clientId = parseInt (req_param req ''id'') in
      bindc (call st ''getClientVendors'' [clientId]) (\<lambda>vendors.
      json 200 vendors))
     (failed ''Failed to fetch vendors''))"

definition post_api_vendors_2 :: "schemas \<Rightarrow> storage \<Rightarrow> request \<Rightarrow> result" where
  "post_api_vendors_2 sch st req0 = isAuthenticated req0 (\<lambda>req. try_catch
     (bindc (lift (insertVendorSchema sch (JObj (req_body req)))) (\<lambda>validatedData.
      bindc (lift (get_prop (user req) ''id'')) (\<lambda>userId.
      bindc (call st ''addVendor'' [JObj (obj_set (spread validatedData) ''addedBy'' userId)]) (\<lambda>vendor.
      json 201 vendor))))
     (\<lambda>error.
        if instanceof_ZodError error
        then \<lparr>status = 400,
              res_body = JObj [(''message'', JStr ''Invalid vendor data''), (''errors'', exn_errors error)]\<rparr>
        else \<lparr>status = 500, res_body = message ''Failed to add vendor''\<rparr>))"

text \<open>Location routes (lines 960-996).\<close>

definition get_api_countries :: "storage \<Rightarrow> request \<Rightarrow> result" where
  "get_api_countries st req = try_catch
     (bindc (call st ''getCountries'' []) (\<lambda>countries.
      json 200 countries))
     (failed ''Failed to fetch countries'')"

definition get_api_states_countryId :: "storage \<Rightarrow> request \<Rightarrow> result" where
  "get_api_states_countryId st req = try_catch
     (let countryId = parseInt (req_param req ''countryId'') in
      if isNaN countryId then json 400 (message ''Invalid country ID'')
      else
        bindc (call st ''getStatesByCountry'' [countryId]) (\<lambda>states.
        json 200 states))
     (failed ''Failed to fetch states'')"

definition get_api_cities_stateId :: "storage \<Rightarrow> request \<Rightarrow> result" where
  "get_api_cities_stateId st req = try_catch
     (let stateId = parseInt (req_param req ''stateId'') in
      if isNaN stateId then json 400 (message ''Invalid state ID'')
      else
        bindc (call st ''getCitiesByState'' [stateId]) (\<lambda>cities.
        json 200 cities))
     (failed ''Failed to fetch cities'')"

text \<open>Admin routes (lines 999-1046).\<close>

definition get_api_admin_vendors_pending :: "storage \<Rightarrow> request \<Rightarrow> result" where
  "get_api_admin_vendors_pending st req0 = isAuthenticated req0 (\<lambda>req. try_catch
     (bindc (call st ''getPendingVendors'' []) (\<lambda>pendingVendors.
      json 200 pendingVendors))
     (failed ''Failed to fetch pending vendors''))"

definition patch_api_admin_vendors_id_status :: "storage \<Rightarrow> request \<Rightarrow> result" where
  "patch_api_admin_vendors_id_status st req0 = isAuthenticated req0 (\<lambda>req. try_catch
     (let vendorId = parseInt (req_param req ''id'');
          status' = obj_get (req_body req) ''status''
      in
      bindc (lift (get_prop (user req) ''id'')) (\<lambda>userId.
      bindc (call st ''updateVendorStatus'' [vendorId, status', userId]) (\<lambda>vendor.
      json 200 vendor)))
     (failed ''Failed to update vendor status''))"

definition patch_api_admin_jobs_id :: "schemas \<Rightarrow> storage \<Rightarrow> request \<Rightarrow> result" where
  "patch_api_admin_jobs_id sch st req0 = isAuthenticated req0 (\<lambda>req. try_catch
     (let jobId = parseInt (req_param req ''id'') in
      bindc (lift (insertJobSchema_partial sch (JObj (req_body req)))) (\<lambda>validatedData.
      bindc (call st ''updateJob'' [jobId, validatedData]) (\<lambda>job.
      json 200 job)))
     (\<lambda>error.
        if instanceof_ZodError error
        then \<lparr>status = 400,
              res_body = JObj [(''message'', JStr ''Invalid job data''), (''errors'', exn_errors error)]\<rparr>
        else \<lparr>status = 500, res_body = message ''Failed to update job''\<rparr>))"

definition patch_api_admin_companies_id_status :: "storage \<Rightarrow> request \<Rightarrow> result" where
  "patch_api_admin_companies_id_status st req0 = isAuthenticated req0 (\<lambda>req. try_catch
     (let companyId = parseInt (req_param req ''id'');
          status' = obj_get (req_body req) ''status''
      in
      bindc (call st ''updateCompany'' [companyId, JObj [(''status'', status')]]) (\<lambda>company.
      json 200 company))
     (failed ''Failed to update company status''))"

text \<open>Category routes (lines 1049-1067).\<close>

definition get_api_categories :: "storage \<Rightarrow> request \<Rightarrow> result" where
  "get_api_categories st req = try_catch
     (bindc (call st ''getCategories'' []) (\<lambda>categories.
      json 200 categories))
     (failed ''Failed to fetch categories'')"

definition post_api_categories :: "storage \<Rightarrow> request \<Rightarrow> result" where
  "post_api_categories st req0 = isAuthenticated req0 (\<lambda>req. try_catch
     (bindc (call st ''createCategory'' [JObj (req_body req)]) (\<lambda>category.
      json 201 category))
     (failed ''Failed to create category''))"

text \<open>The second registrations of the location routes (lines 1070-1100).\<close>

definition get_api_countries_2 :: "storage \<Rightarrow> request \<Rightarrow> result" where
  "get_api_countries_2 st req = try_catch
     (bindc (call st ''getCountries'' []) (\<lambda>countries.
      json 200 countries))
     (failed ''Failed to fetch countries'')"

definition get_api_states_countryId_2 :: "storage \<Rightarrow> request \<Rightarrow> result" where
  "get_api_states_countryId_2 st req = try_catch
     (let countryId = req_param req ''countryId'' in
      bindc (call st ''getStatesByCountry'' [parseInt countryId]) (\<lambda>states.
      json 200 states))
     (failed ''Failed to fetch states'')"

definition get_api_cities_stateId_2 :: "storage \<Rightarrow> request \<Rightarrow> result" where
  "get_api_cities_stateId_2 st req = try_catch
     (let stateId = req_param req ''stateId'' in
      bindc (call st ''getCitiesByState'' [parseInt stateId]) (\<lambda>cities.
      json 200 cities))
     (failed ''Failed to fetch cities'')"

text \<open>The second registration of \<^verbatim>\<open>POST /api/upload/company-logo\<close> (lines 1103-1115).\<close>

definition post_api_upload_company_logo_2 :: "storage \<Rightarrow> request \<Rightarrow> result" where
  "post_api_upload_company_logo_2 st req0 =
     isAuthenticated req0 (\<lambda>req1. imageUpload_single ''logo'' req1 (\<lambda>req. try_catch
       (case req_file req of
          None \<Rightarrow> json 400 (message ''No file uploaded'')
        | Some f \<Rightarrow>
            let logoUrl = ''/uploads/'' @ filename f in
            json 200 (JObj [(''logoUrl'', JStr logoUrl)]))
       (failed ''Failed to upload logo'')))"

section \<open>The router\<close>

text \<open>
  The routes are registered on an Express application. Express tries the registered
  routes in the order of registration and runs the first whose method and path pattern
  match; none of the handlers above hands the request on to a later route, so a later
  registration of the same method and path is never run. A pattern matches segment by
  segment: a literal segment without regard to case, a \<^verbatim>\<open>:name\<close> segment any non-empty
  segment, which becomes \<^verbatim>\<open>req.params.name\<close>; one trailing slash is ignored.
  Before the routes, \<^verbatim>\<open>registerRoutes\<close> calls \<^verbatim>\<open>setupAuth(app)\<close>, of the module \<^verbatim>\<open>./auth\<close>
  that is not among the sources, and mounts the static files under \<^verbatim>\<open>/uploads\<close>; neither
  is modelled, and the router below is the part of the application that the routes of
  \<^verbatim>\<open>routes.ts\<close> make up.
\<close>

datatype seg = Lit string | Param string

definition segments :: "string \<Rightarrow> string list" where
  "segments p =
     (let parts = split_on CHR ''/'' p;
          parts1 = (case parts of [] # r \<Rightarrow> r | _ \<Rightarrow> parts)
      in if parts1 \<noteq> [] \<and> last parts1 = [] then butlast parts1 else parts1)"

definition parse_pattern :: "string \<Rightarrow> seg list" where
  "parse_pattern p =
     map (\<lambda>s. case s of c # r \<Rightarrow> if c = CHR '':'' then Param r else Lit s | [] \<Rightarrow> Lit s) (segments p)"

fun match_segs :: "seg list \<Rightarrow> string list \<Rightarrow> (string \<times> string) list option" where
  "match_segs [] [] = Some []"
| "match_segs (Lit l # ps) (s # ss) =
     (if toLowerCase l = toLowerCase s then match_segs ps ss else None)"
| "match_segs (Param n # ps) (s # ss) =
     (if s = [] then None
      else (case match_segs ps ss of Some bs \<Rightarrow> Some ((n, s) # bs) | None \<Rightarrow> None))"
| "match_segs ps ss = None"

definition match_path :: "string \<Rightarrow> string \<Rightarrow> (string \<times> string) list option" where
  "match_path pattern p = match_segs (parse_pattern pattern) (segments p)"

type_synonym handler = "schemas \<Rightarrow> storage \<Rightarrow> request \<Rightarrow> result"

type_synonym route = "http_method \<times> string \<times> handler"

text \<open>The routes of \<^verbatim>\<open>registerRoutes\<close>, in the order of their registration.\<close>

definition routes :: "route list" where
  "routes =
     [
      (GET, ''/api/companies/:id/details'', (\<lambda>sch. get_api_companies_id_details)),
      (GET, ''/api/test-db-connection'', (\<lambda>sch. get_api_test_db_connection)),
      (GET, ''/api/search'', (\<lambda>sch. get_api_search)),
      (GET, ''/api/profile/:id'', (\<lambda>sch. get_api_profile_id)),
      (PUT, ''/api/profile'', (\<lambda>sch. put_api_profile)),
      (GET, ''/api/experiences'', (\<lambda>sch. get_api_experiences)),
      (POST, ''/api/experiences'', post_api_experiences),
      (PUT, ''/api/experiences/:id'', (\<lambda>sch. put_api_experiences_id)),
      (DELETE, ''/api/experiences/:id'', (\<lambda>sch. delete_api_experiences_id)),
      (GET, ''/api/education'', (\<lambda>sch. get_api_education)),
      (POST, ''/api/education'', post_api_education),
      (PUT, ''/api/education/:id'', (\<lambda>sch. put_api_education_id)),
      (DELETE, ''/api/education/:id'', (\<lambda>sch. delete_api_education_id)),
      (GET, ''/api/skills'', (\<lambda>sch. get_api_skills)),
      (POST, ''/api/skills'', post_api_skills),
      (DELETE, ''/api/skills/:id'', (\<lambda>sch. delete_api_skills_id)),
      (GET, ''/api/companies/all'', (\<lambda>sch. get_api_companies_all)),
      (GET, ''/api/companies/all'', (\<lambda>sch. get_api_companies_all_2)),
      (GET, ''/api/companies'', (\<lambda>sch. get_api_companies)),
      (GET, ''/api/companies/pending'', (\<lambda>sch. get_api_companies_pending)),
      (GET, ''/api/companies/:id'', (\<lambda>sch. get_api_companies_id)),
      (POST, ''/api/upload/company-logo'', (\<lambda>sch. post_api_upload_company_logo)),
      (POST, ''/api/companies'', post_api_companies),
      (PATCH, ''/api/companies/:id/status'', (\<lambda>sch. patch_api_companies_id_status)),
      (PUT, ''/api/companies/:id/approve'', (\<lambda>sch. put_api_companies_id_approve)),
      (PUT, ''/api/companies/:id/reject'', (\<lambda>sch. put_api_companies_id_reject)),
      (GET, ''/api/admin/stats'', (\<lambda>sch. get_api_admin_stats)),
      (POST, ''/api/vendors'', (\<lambda>sch. post_api_vendors)),
      (GET, ''/api/companies/:id/vendors'', (\<lambda>sch. get_api_companies_id_vendors)),
      (PUT, ''/api/companies/:id'', (\<lambda>sch. put_api_companies_id)),
      (GET, ''/api/jobs/:id'', (\<lambda>sch. get_api_jobs_id)),
      (GET, ''/api/jobs'', (\<lambda>sch. get_api_jobs)),
      (GET, ''/api/jobs/:id'', (\<lambda>sch. get_api_jobs_id_2)),
      (PUT, ''/api/jobs/:id'', put_api_jobs_id),
      (POST, ''/api/jobs'', post_api_jobs),
      (PUT, ''/api/jobs/:id'', (\<lambda>sch. put_api_jobs_id_2)),
      (DELETE, ''/api/jobs/:id'', (\<lambda>sch. delete_api_jobs_id)),
      (GET, ''/api/applications'', (\<lambda>sch. get_api_applications)),
      (GET, ''/api/jobs/:id/applications'', (\<lambda>sch. get_api_jobs_id_applications)),
      (POST, ''/api/applications'', post_api_applications),
      (PATCH, ''/api/applications/:id/status'', (\<lambda>sch. patch_api_applications_id_status)),
      (DELETE, ''/api/applications/:id'', (\<lambda>sch. delete_api_applications_id)),
      (GET, ''/api/connections'', (\<lambda>sch. get_api_connections)),
      (GET, ''/api/connection-requests'', (\<lambda>sch. get_api_connection_requests)),
      (POST, ''/api/connections'', post_api_connections),
      (PUT, ''/api/connections/:id/status'', (\<lambda>sch. put_api_connections_id_status)),
      (GET, ''/api/conversations'', (\<lambda>sch. get_api_conversations)),
      (GET, ''/api/messages/:userId'', (\<lambda>sch. get_api_messages_userId)),
      (POST, ''/api/messages'', post_api_messages),
      (PUT, ''/api/messages/:id/read'', (\<lambda>sch. put_api_messages_id_read)),
      (GET, ''/api/groups'', (\<lambda>sch. get_api_groups)),
      (GET, ''/api/user/groups'', (\<lambda>sch. get_api_user_groups)),
      (POST, ''/api/groups'', post_api_groups),
      (POST, ''/api/groups/:id/join'', (\<lambda>sch. post_api_groups_id_join)),
      (GET, ''/api/search/:query'', (\<lambda>sch. get_api_search_query)),
      (GET, ''/api/clients/:id/vendors'', (\<lambda>sch. get_api_clients_id_vendors)),
      (POST, ''/api/vendors'', post_api_vendors_2),
      (GET, ''/api/countries'', (\<lambda>sch. get_api_countries)),
      (GET, ''/api/states/:countryId'', (\<lambda>sch. get_api_states_countryId)),
      (GET, ''/api/cities/:stateId'', (\<lambda>sch. get_api_cities_stateId)),
      (GET, ''/api/admin/vendors/pending'', (\<lambda>sch. get_api_admin_vendors_pending)),
      (PATCH, ''/api/admin/vendors/:id/status'', (\<lambda>sch. patch_api_admin_vendors_id_status)),
      (PATCH, ''/api/admin/jobs/:id'', patch_api_admin_jobs_id),
      (PATCH, ''/api/admin/companies/:id/status'', (\<lambda>sch. patch_api_admin_companies_id_status)),
      (GET, ''/api/categories'', (\<lambda>sch. get_api_categories)),
      (POST, ''/api/categories'', (\<lambda>sch. post_api_categories)),
      (GET, ''/api/countries'', (\<lambda>sch. get_api_countries_2)),
      (GET, ''/api/states/:countryId'', (\<lambda>sch. get_api_states_countryId_2)),
      (GET, ''/api/cities/:stateId'', (\<lambda>sch. get_api_cities_stateId_2)),
      (POST, ''/api/upload/company-logo'', (\<lambda>sch. post_api_upload_company_logo_2))
     ]"

text \<open>
  The first route that matches handles the request; the result names the route. A
  request that no route matches is left to what the application registers after
  \<^verbatim>\<open>registerRoutes\<close>.
\<close>

fun dispatch :: "route list \<Rightarrow> schemas \<Rightarrow> storage \<Rightarrow> request \<Rightarrow> ((http_method \<times> string) \<times> result) option" where
  "dispatch [] sch st req = None"
| "dispatch ((m, pattern, h) # rs) sch st req =
     (if m = req_method req
      then (case match_path pattern (req_path req) of
              Some ps \<Rightarrow> Some ((m, pattern), h sch st (req\<lparr>params := ps\<rparr>))
            | None \<Rightarrow> dispatch rs sch st req)
      else dispatch rs sch st req)"

definition handle_request :: "schemas \<Rightarrow> storage \<Rightarrow> request \<Rightarrow> ((http_method \<times> string) \<times> result) option" where
  "handle_request sch st req = dispatch routes sch st req"

section \<open>Requests and collaborators to run the handlers on\<close>

text \<open>A request with nothing but a method and a path: no query, an empty body, no session.\<close>

definition new_request :: "http_method \<Rightarrow> string \<Rightarrow> request" where
  "new_request m p =
     \<lparr>req_method = m, req_path = p, params = [], query = [], req_body = [],
      session_user = JUndefined, user = JUndefined, upload_part = None, req_file = None,
      date_now = 0, fs_renameSync = (\<lambda>oldPath newPath. None)\<rparr>"

text \<open>
  Modelled from the spec: the schemas of \<^verbatim>\<open>@shared/schema\<close> are missing from the sources.
  The spec says of a schema that it describes the shape of an entity and rejects a
  payload missing a required field, identifying the field. \<open>required_fields_schema\<close> is
  such a schema, given the names of the required fields: a payload that has them all is
  returned as it is, and otherwise a \<^verbatim>\<open>ZodError\<close> is thrown with one issue for each
  missing field, naming it in \<^verbatim>\<open>path\<close>.
\<close>

definition required_fields_schema :: "string list \<Rightarrow> parser" where
  "required_fields_schema required v =
     (let missing = filter (\<lambda>k. get_prop_opt v k = JUndefined) required in
      if missing = [] then Inr v
      else Inl (ZodError ''Required''
                  (map (\<lambda>k. JObj [(''code'', JStr ''invalid_type''), (''path'', JArr [JStr k]),
                                   (''message'', JStr ''Required'')]) missing)))"


text \<open>A storage in which nothing is found, and one whose every call fails.\<close>

definition empty_storage :: storage where
  "empty_storage name args = Inr JUndefined"

definition failing_storage :: "string \<Rightarrow> storage" where
  "failing_storage reason name args = Inl (Error reason)"

text \<open>A storage that answers from a table of calls, and \<^verbatim>\<open>undefined\<close> for any other call.\<close>

definition table_storage :: "((string \<times> jsval list) \<times> jsval) list \<Rightarrow> storage" where
  "table_storage tab name args = (case map_of tab (name, args) of Some v \<Rightarrow> Inr v | None \<Rightarrow> Inr JUndefined)"

subsection \<open>The shape of error responses\<close>




subsection \<open>A store of companies\<close>

text \<open>
  Modelled from the spec: \<^verbatim>\<open>storage.updateCompanyStatus\<close> is part of \<^verbatim>\<open>./storage\<close>, which is
  missing from the sources. The spec says of a company that it has a status (pending,
  approved or rejected), that an admin approves or rejects it, that this status
  transition has no re-entry rule, and that identifiers are minted by the store. The
  store maps an identifier to the company record; the transition writes the status and
  who decided it into the record and returns the record, and returns \<^verbatim>\<open>undefined\<close> for
  an identifier the store does not hold.
\<close>

type_synonym company_store = "int \<Rightarrow> (string \<times> jsval) list option"

fun updateCompanyStatus :: "company_store \<Rightarrow> jsval list \<Rightarrow> jsval \<times> company_store" where
  "updateCompanyStatus db [JNum cid, status', approvedBy] =
     (case db cid of
        None \<Rightarrow> (JUndefined, db)
      | Some company \<Rightarrow>
          let company' = obj_set (obj_set company ''status'' status') ''approvedBy'' approvedBy
          in (JObj company', db(cid \<mapsto> company')))"
| "updateCompanyStatus db args = (JUndefined, db)"

text \<open>The storage a request sees over a store, and what a call leaves of the store.\<close>

definition store_storage :: "storage \<Rightarrow> company_store \<Rightarrow> storage" where
  "store_storage st db name args =
     (if name = ''updateCompanyStatus'' then Inr (fst (updateCompanyStatus db args))
      else st name args)"

definition store_after :: "company_store \<Rightarrow> string \<times> jsval list \<Rightarrow> company_store" where
  "store_after db c =
     (if fst c = ''updateCompanyStatus'' then snd (updateCompanyStatus db (snd c)) else db)"

text \<open>One \<^verbatim>\<open>PATCH /api/companies/:id/status\<close> request against the store.\<close>

definition patch_status_on_store ::
  "storage \<Rightarrow> company_store \<Rightarrow> request \<Rightarrow> outcome \<times> company_store" where
  "patch_status_on_store st db req =
     (case patch_api_companies_id_status (store_storage st db) req of
        (out, cs) \<Rightarrow> (out, foldl store_after db cs))"

section \<open>Predicates for the proofs\<close>

text \<open>Whether an object has a property of its own.\<close>

fun has_key :: "(string \<times> jsval) list \<Rightarrow> string \<Rightarrow> bool" where
  "has_key [] k = False"
| "has_key ((k', v) # kvs) k = (k' = k \<or> has_key kvs k)"



section \<open>Facts about the primitives\<close>

lemmas js_simps = parseInt_def parseInt_string_def is_ws_def is_digit_in_def digit_of_def

lemmas route_simps = handle_request_def routes_def match_path_def parse_pattern_def segments_def
  toLowerCase_def lower_char_def

lemmas comp_simps = try_catch_def bindc_def call_def json_def ret_def lift_def failed_def
  promise_all2_def


lemma parseInt_cases: "(\<exists>n. parseInt v = JNum n) \<or> parseInt v = JNaN"
  by (simp add: parseInt_def parseInt_string_def Let_def)

lemma obj_get_obj_set: "obj_get (obj_set kvs k v) k' = (if k' = k then v else obj_get kvs k')"
  by (induction kvs) auto

lemma obj_set_same: "obj_set (obj_set kvs k v) k v = obj_set kvs k v"
  by (induction kvs) auto

lemma has_key_obj_set: "has_key (obj_set kvs k v) k' = (k' = k \<or> has_key kvs k')"
  by (induction kvs) (auto split: if_splits)

lemma obj_set_present: "has_key kvs k \<Longrightarrow> obj_set kvs k (obj_get kvs k) = kvs"
  by (induction kvs) auto

lemma get_prop_defined: "v \<noteq> JUndefined \<Longrightarrow> v \<noteq> JNull \<Longrightarrow> get_prop v k = Inr (get_prop_opt v k)"
  by (cases v) simp_all

lemma filter_js_isActive:
  "\<forall>job \<in> set jobs. job \<noteq> JUndefined \<and> job \<noteq> JNull \<Longrightarrow>
   filter_js isActive_true jobs = Inr (filter (\<lambda>job. get_prop_opt job ''isActive'' = JBool True) jobs)"
  by (induction jobs) (auto simp: isActive_true_def get_prop_defined)

text \<open>The storage calls of a computation, read off its structure.\<close>

lemma calls_try_catch: "snd (try_catch m h) = snd m"
  by (simp add: try_catch_def split: prod.split sum.split)

lemma calls_bindc: "snd (bindc m f) = (case fst m of Inl e \<Rightarrow> snd m | Inr a \<Rightarrow> snd m @ snd (f a))"
  by (simp add: bindc_def split: prod.split sum.split)

lemma calls_call: "snd (call st name args) = [(name, args)]"
  by (simp add: call_def)

lemma result_call: "fst (call st name args) = st name args"
  by (simp add: call_def)

lemma calls_json: "snd (json code v) = []"
  by (simp add: json_def ret_def)

lemma calls_lift: "snd (lift r) = []"
  by (simp add: lift_def)

lemma result_lift: "fst (lift r) = r"
  by (simp add: lift_def)

lemmas calls_simps = calls_try_catch calls_bindc calls_call result_call calls_json calls_lift result_lift

section \<open>The shape of the error responses, handler by handler\<close>
















































































section \<open>Which handler serves which path\<close>

lemma split_on_append: "c \<notin> set s \<Longrightarrow> split_on c (s @ c # rest) = s # split_on c rest"
  by (induction s) auto

lemma split_on_no_sep: "c \<notin> set s \<Longrightarrow> split_on c s = [s]"
  by (induction s) auto

lemma route_search:
  assumes "req_method req = GET" and "req_path req = ''/api/search''"
  shows "handle_request sch st req =
           Some ((GET, ''/api/search''), get_api_search st (req\<lparr>params := []\<rparr>))"
  using assms by (simp add: route_simps)

lemma route_search_query:
  assumes "req_method req = GET" and "req_path req = ''/api/search/'' @ q"
    and "q \<noteq> []" and "CHR ''/'' \<notin> set q"
  shows "handle_request sch st req =
           Some ((GET, ''/api/search/:query''),
                 get_api_search_query st (req\<lparr>params := [(''query'', q)]\<rparr>))"
proof -
  have split: "split_on CHR ''/'' (req_path req) = [[], ''api'', ''search'', q]"
    using assms(2,4) by (simp add: split_on_no_sep)
  from assms(1,3) split show ?thesis
    by (simp add: route_simps)
qed

lemma route_companies:
  assumes "req_method req = GET" and "req_path req = ''/api/companies''"
  shows "handle_request sch st req =
           Some ((GET, ''/api/companies''), get_api_companies st (req\<lparr>params := []\<rparr>))"
  using assms by (simp add: route_simps)

lemma route_company_details:
  assumes "req_method req = GET" and "req_path req = ''/api/companies/'' @ p @ ''/details''"
    and "p \<noteq> []" and "CHR ''/'' \<notin> set p"
  shows "handle_request sch st req =
           Some ((GET, ''/api/companies/:id/details''),
                 get_api_companies_id_details st (req\<lparr>params := [(''id'', p)]\<rparr>))"
proof -
  have split: "split_on CHR ''/'' (req_path req) = [[], ''api'', ''companies'', p, ''details'']"
    using assms(2,4) by (simp add: split_on_append)
  from assms(1,3) split show ?thesis
    by (simp add: route_simps)
qed

lemma route_company_status:
  assumes "req_method req = PATCH" and "req_path req = ''/api/companies/'' @ p @ ''/status''"
    and "p \<noteq> []" and "CHR ''/'' \<notin> set p"
  shows "handle_request sch st req =
           Some ((PATCH, ''/api/companies/:id/status''),
                 patch_api_companies_id_status st (req\<lparr>params := [(''id'', p)]\<rparr>))"
proof -
  have split: "split_on CHR ''/'' (req_path req) = [[], ''api'', ''companies'', p, ''status'']"
    using assms(2,4) by (simp add: split_on_append)
  from assms(1,3) split show ?thesis
    by (simp add: route_simps)
qed

lemma route_post_jobs:
  assumes "req_method req = POST" and "req_path req = ''/api/jobs''"
  shows "handle_request sch st req =
           Some ((POST, ''/api/jobs''), post_api_jobs sch st (req\<lparr>params := []\<rparr>))"
  using assms by (simp add: route_simps)

section \<open>Path parameters that are not numbers\<close>

text \<open>
  Some routes test the parsed parameter with \<^verbatim>\<open>isNaN\<close> and answer 400;
  \<^verbatim>\<open>GET /api/companies/:id\<close> is one of them.
\<close>

lemma get_company_non_numeric_id_400:
  "parseInt (req_param req ''id'') = JNaN \<Longrightarrow>
   get_api_companies_id st req =
     (Respond \<lparr>status = 400, res_body = message ''Invalid company ID''\<rparr>, [])"
  by (simp add: get_api_companies_id_def comp_simps)

text \<open>
  \<^verbatim>\<open>DELETE /api/applications/:id\<close> has no such test: the storage is called with \<^verbatim>\<open>NaN\<close>,
  and the answer is the success message or 500.
\<close>

lemma delete_application_non_numeric_id:
  "handle_request sch st (new_request DELETE ''/api/applications/abc'') =
     Some ((DELETE, ''/api/applications/:id''),
           (Respond (case st ''deleteJobApplication'' [JNaN] of
                       Inl e \<Rightarrow> \<lparr>status = 500, res_body = message ''Failed to withdraw application''\<rparr>
                     | Inr v \<Rightarrow> \<lparr>status = 200, res_body = message ''Application withdrawn successfully''\<rparr>),
            [(''deleteJobApplication'', [JNaN])]))"
  by (simp add: route_simps new_request_def delete_api_applications_id_def comp_simps js_simps
      req_param_def split: sum.splits)

text \<open>
  The handler that serves \<^verbatim>\<open>GET /api/jobs/:id\<close> answers 200, 404 or 500 and nothing else,
  whatever the parameter is.
\<close>

lemma get_job_status_codes:
  "get_api_jobs_id st req = (Respond r, cs) \<Longrightarrow> status r = 200 \<or> status r = 404 \<or> status r = 500"
  by (auto simp: get_api_jobs_id_def comp_simps Let_def split: sum.splits if_splits)

text \<open>
  Claim C1 says that on every route with a numeric path parameter a parameter that does
  not parse as a number is answered with 400 and never with 500. The code does not do
  so on \<^verbatim>\<open>GET /api/jobs/:id\<close>: for the path \<^verbatim>\<open>/api/jobs/abc\<close> the first registered handler
  calls \<^verbatim>\<open>storage.getJob(NaN)\<close> whatever the storage is, and answers 200, 404 or 500
  according to what the storage does, never 400; with a storage that rejects the call
  the answer is 500.
\<close>

theorem get_job_non_numeric_id_not_400:
  "(let r = (case st ''getJob'' [JNaN] of
               Inl e \<Rightarrow> \<lparr>status = 500, res_body = JObj [(''error'', JStr ''Failed to fetch job'')]\<rparr>
             | Inr job \<Rightarrow>
                 if truthy job then \<lparr>status = 200, res_body = job\<rparr>
                 else \<lparr>status = 404, res_body = JObj [(''error'', JStr ''Job not found'')]\<rparr>)
    in handle_request sch st (new_request GET ''/api/jobs/abc'') =
         Some ((GET, ''/api/jobs/:id''), (Respond r, [(''getJob'', [JNaN])]))
       \<and> status r \<noteq> 400)
   \<and> handle_request sch (failing_storage ''invalid input syntax for type integer'')
        (new_request GET ''/api/jobs/abc'') =
       Some ((GET, ''/api/jobs/:id''),
             (Respond \<lparr>status = 500, res_body = JObj [(''error'', JStr ''Failed to fetch job'')]\<rparr>,
              [(''getJob'', [JNaN])]))"
  by (simp add: route_simps new_request_def get_api_jobs_id_def comp_simps js_simps req_param_def
      failing_storage_def Let_def split: sum.splits)

section \<open>Create requests that fail validation\<close>

text \<open>
  \<^verbatim>\<open>POST /api/applications\<close> tells a \<^verbatim>\<open>ZodError\<close> from other failures and answers it with
  400 and the issues: with a schema that requires \<^verbatim>\<open>coverLetter\<close>, a body without it is
  answered with the issue that names the field.
\<close>

lemma post_applications_missing_field_400:
  "handle_request (sch\<lparr>insertJobApplicationSchema := required_fields_schema [''coverLetter'']\<rparr>) st
     ((new_request POST ''/api/applications'')
        \<lparr>session_user := JObj [(''id'', JStr ''u1'')], req_body := [(''jobId'', JStr ''12'')]\<rparr>) =
   Some ((POST, ''/api/applications''),
         (Respond \<lparr>status = 400,
                   res_body = JObj [(''message'', JStr ''Invalid application data''),
                                    (''errors'', JArr [JObj [(''code'', JStr ''invalid_type''),
                                                            (''path'', JArr [JStr ''coverLetter'']),
                                                            (''message'', JStr ''Required'')]])]\<rparr>,
          []))"
  by (simp add: route_simps new_request_def post_api_applications_def isAuthenticated_def
      upload_single_def multer_single_def comp_simps js_simps required_fields_schema_def Let_def)

text \<open>\<^verbatim>\<open>POST /api/experiences\<close> answers 200, 401 or 500 and nothing else.\<close>

lemma post_experiences_status_codes:
  "post_api_experiences sch st req = (Respond r, cs) \<Longrightarrow>
   status r = 200 \<or> status r = 401 \<or> status r = 500"
  by (auto simp: post_api_experiences_def isAuthenticated_def comp_simps message_def Let_def
      split: sum.splits if_splits)

text \<open>
  Claim C2 says that every create request whose body lacks a field the schema requires
  is answered with 400 and an \<^verbatim>\<open>errors\<close> list that identifies the field. The code does
  not do so on \<^verbatim>\<open>POST /api/experiences\<close>: its \<^verbatim>\<open>catch\<close> block answers every failure, the
  schema's included, with 500 and a message only. Here the schema requires \<^verbatim>\<open>title\<close>,
  the user is signed in and the body is empty; the storage is never called.
\<close>

theorem post_experiences_missing_field_500:
  "handle_request (sch\<lparr>insertExperienceSchema := required_fields_schema [''title'']\<rparr>) st
     ((new_request POST ''/api/experiences'')
        \<lparr>session_user := JObj [(''id'', JStr ''u1'')], req_body := []\<rparr>) =
   Some ((POST, ''/api/experiences''),
         (Respond \<lparr>status = 500, res_body = message ''Failed to add experience''\<rparr>, []))"
  by (simp add: route_simps new_request_def post_api_experiences_def isAuthenticated_def comp_simps
      required_fields_schema_def)

section \<open>The shape of error responses\<close>




section \<open>A job that does not exist\<close>

text \<open>
  The second handler registered for \<^verbatim>\<open>GET /api/jobs/:id\<close> answers a missing job with
  \<^verbatim>\<open>{ message: "Job not found" }\<close>; the router never runs it.
\<close>

lemma second_get_job_registration_body:
  "get_api_jobs_id_2 empty_storage ((new_request GET ''/api/jobs/99999'')\<lparr>params := [(''id'', ''99999'')]\<rparr>) =
     (Respond \<lparr>status = 404, res_body = message ''Job not found''\<rparr>, [(''getJob'', [JNum 99999])])"
  by (simp add: new_request_def get_api_jobs_id_2_def comp_simps js_simps req_param_def
      empty_storage_def)

text \<open>
  Claim C4 says that \<^verbatim>\<open>GET /api/jobs/99999\<close>, for a job the storage does not hold, is
  answered with 404 and the body \<^verbatim>\<open>{ message: "Job not found" }\<close>. The code answers with
  404 and the body \<^verbatim>\<open>{ error: "Job not found" }\<close>: the request is handled by the first of
  the two handlers registered for the path.
\<close>

theorem get_job_not_found_body:
  "handle_request sch empty_storage (new_request GET ''/api/jobs/99999'') =
     Some ((GET, ''/api/jobs/:id''),
           (Respond \<lparr>status = 404, res_body = JObj [(''error'', JStr ''Job not found'')]\<rparr>,
            [(''getJob'', [JNum 99999])]))
   \<and> JObj [(''error'', JStr ''Job not found'')] \<noteq> message ''Job not found''"
  by (simp add: route_simps new_request_def get_api_jobs_id_def comp_simps js_simps req_param_def
      empty_storage_def message_def)

section \<open>The global search\<close>



text \<open>
  Claim C6: for every query that meets the minimum length (three characters after
  trimming), \<^verbatim>\<open>GET /api/search\<close> asks the storage for the companies and for the jobs that
  match, each with the query and the cap of 10 alone, and when both searches return
  their arrays the response is exactly the two arrays, unchanged, \<^verbatim>\<open>companies\<close> before
  \<^verbatim>\<open>jobs\<close>.
\<close>

theorem search_merges_results:
  assumes "js_or (req_query req ''q'') (req_query req ''query'') = JStr s"
    and "3 \<le> length (trim s)"
    and "st ''searchCompanies'' [JStr s, JNum 10] = Inr (JArr companies)"
    and "st ''searchJobs'' [JStr s, JObj [], JNum 10] = Inr (JArr jobs)"
  shows "get_api_search st req =
           (Respond \<lparr>status = 200,
                     res_body = JObj [(''companies'', JArr companies), (''jobs'', JArr jobs)]\<rparr>,
            [(''searchCompanies'', [JStr s, JNum 10]), (''searchJobs'', [JStr s, JObj [], JNum 10])])"
proof -
  from assms(2) have "s \<noteq> []" by (auto simp: trim_def)
  with assms show ?thesis
    by (simp add: get_api_search_def comp_simps js_or_def Let_def)
qed

theorem search_merges_results_witness:
  "js_or (req_query ((new_request GET ''/api/search'')\<lparr>query := [(''q'', ''acme'')]\<rparr>) ''q'')
         (req_query ((new_request GET ''/api/search'')\<lparr>query := [(''q'', ''acme'')]\<rparr>) ''query'') = JStr ''acme''
   \<and> 3 \<le> length (trim ''acme'')
   \<and> get_api_search
         (table_storage
            [((''searchCompanies'', [JStr ''acme'', JNum 10]), JArr [JObj [(''name'', JStr ''Acme'')]]),
             ((''searchJobs'', [JStr ''acme'', JObj [], JNum 10]),
              JArr [JObj [(''title'', JStr ''Engineer'')], JObj [(''title'', JStr ''Analyst'')]])])
         ((new_request GET ''/api/search'')\<lparr>query := [(''q'', ''acme'')]\<rparr>) =
       (Respond \<lparr>status = 200,
                 res_body = JObj [(''companies'', JArr [JObj [(''name'', JStr ''Acme'')]]),
                                  (''jobs'', JArr [JObj [(''title'', JStr ''Engineer'')],
                                                   JObj [(''title'', JStr ''Analyst'')]])]\<rparr>,
        [(''searchCompanies'', [JStr ''acme'', JNum 10]), (''searchJobs'', [JStr ''acme'', JObj [], JNum 10])])"
proof -
  let ?req = "(new_request GET ''/api/search'')\<lparr>query := [(''q'', ''acme'')]\<rparr>"
  let ?st = "table_storage
            [((''searchCompanies'', [JStr ''acme'', JNum 10]), JArr [JObj [(''name'', JStr ''Acme'')]]),
             ((''searchJobs'', [JStr ''acme'', JObj [], JNum 10]),
              JArr [JObj [(''title'', JStr ''Engineer'')], JObj [(''title'', JStr ''Analyst'')]])]"
  have h1: "js_or (req_query ?req ''q'') (req_query ?req ''query'') = JStr ''acme''"
    by (simp add: js_or_def req_query_def new_request_def)
  have h2: "3 \<le> length (trim ''acme'')"
    by (simp add: trim_def is_ws_def)
  have h3: "?st ''searchCompanies'' [JStr ''acme'', JNum 10] = Inr (JArr [JObj [(''name'', JStr ''Acme'')]])"
    by (simp add: table_storage_def)
  have h4: "?st ''searchJobs'' [JStr ''acme'', JObj [], JNum 10] =
              Inr (JArr [JObj [(''title'', JStr ''Engineer'')], JObj [(''title'', JStr ''Analyst'')]])"
    by (simp add: table_storage_def)
  from search_merges_results [OF h1 h2 h3 h4] h1 h2 show ?thesis by simp
qed

section \<open>The location of a new job\<close>




section \<open>Approving a company twice\<close>

text \<open>
  Claim C8: for every company whose status is pending, \<^verbatim>\<open>PATCH /api/companies/:id/status\<close>
  with the status \<^verbatim>\<open>approved\<close> is idempotent. Against the store of companies, the first
  request answers 200 with the company, now approved, and a second, identical request
  on the store the first one left gives the same response and leaves the same store.
\<close>

theorem approve_twice_same:
  assumes "parseInt (req_param req ''id'') = JNum cid"
    and "db cid = Some company"
    and "obj_get company ''status'' = JStr ''pending''"
    and "obj_get (req_body req) ''status'' = JStr ''approved''"
  shows "let company' = obj_set (obj_set company ''status'' (JStr ''approved''))
                          ''approvedBy'' (js_or (obj_get (req_body req) ''approvedBy'') (JStr ''admin-krupa''));
             answer = Respond \<lparr>status = 200, res_body = JObj company'\<rparr>
         in patch_status_on_store st db req = (answer, db(cid \<mapsto> company'))
            \<and> patch_status_on_store st (db(cid \<mapsto> company')) req = (answer, db(cid \<mapsto> company'))
            \<and> obj_get company' ''status'' = JStr ''approved''"
proof -
  let ?by = "js_or (obj_get (req_body req) ''approvedBy'') (JStr ''admin-krupa'')"
  let ?c = "obj_set (obj_set company ''status'' (JStr ''approved'')) ''approvedBy'' ?by"
  have again: "obj_set (obj_set ?c ''status'' (JStr ''approved'')) ''approvedBy'' ?by = ?c"
  proof -
    have "obj_set ?c ''status'' (obj_get ?c ''status'') = ?c"
      by (rule obj_set_present) (simp add: has_key_obj_set)
    then have "obj_set ?c ''status'' (JStr ''approved'') = ?c"
      by (simp add: obj_get_obj_set)
    then show ?thesis by (simp add: obj_set_same)
  qed
  have once: "patch_status_on_store st db req =
                (Respond \<lparr>status = 200, res_body = JObj ?c\<rparr>, db(cid \<mapsto> ?c))"
    using assms
    by (simp add: patch_status_on_store_def patch_api_companies_id_status_def comp_simps Let_def
        store_storage_def store_after_def)
  have twice: "patch_status_on_store st (db(cid \<mapsto> ?c)) req =
                 (Respond \<lparr>status = 200, res_body = JObj ?c\<rparr>, db(cid \<mapsto> ?c))"
    using assms(1,4) again
    by (simp add: patch_status_on_store_def patch_api_companies_id_status_def comp_simps Let_def
        store_storage_def store_after_def)
  from once twice show ?thesis
    by (simp add: Let_def obj_get_obj_set)
qed

theorem approve_twice_same_witness:
  "parseInt (req_param ((new_request PATCH ''/api/companies/7/status'')
                          \<lparr>params := [(''id'', ''7'')], req_body := [(''status'', JStr ''approved'')]\<rparr>) ''id'') = JNum 7
   \<and> patch_status_on_store empty_storage
         (Map.empty((7::int) \<mapsto> [(''id'', JNum 7), (''name'', JStr ''Acme''), (''status'', JStr ''pending'')]))
         ((new_request PATCH ''/api/companies/7/status'')
            \<lparr>params := [(''id'', ''7'')], req_body := [(''status'', JStr ''approved'')]\<rparr>) =
       (Respond \<lparr>status = 200,
                 res_body = JObj [(''id'', JNum 7), (''name'', JStr ''Acme''), (''status'', JStr ''approved''),
                                  (''approvedBy'', JStr ''admin-krupa'')]\<rparr>,
        (Map.empty((7::int) \<mapsto> [(''id'', JNum 7), (''name'', JStr ''Acme''), (''status'', JStr ''pending'')]))
          (7 \<mapsto> [(''id'', JNum 7), (''name'', JStr ''Acme''), (''status'', JStr ''approved''),
                  (''approvedBy'', JStr ''admin-krupa'')]))
   \<and> patch_status_on_store empty_storage
         ((Map.empty((7::int) \<mapsto> [(''id'', JNum 7), (''name'', JStr ''Acme''), (''status'', JStr ''pending'')]))
            (7 \<mapsto> [(''id'', JNum 7), (''name'', JStr ''Acme''), (''status'', JStr ''approved''),
                    (''approvedBy'', JStr ''admin-krupa'')]))
         ((new_request PATCH ''/api/companies/7/status'')
            \<lparr>params := [(''id'', ''7'')], req_body := [(''status'', JStr ''approved'')]\<rparr>) =
       (Respond \<lparr>status = 200,
                 res_body = JObj [(''id'', JNum 7), (''name'', JStr ''Acme''), (''status'', JStr ''approved''),
                                  (''approvedBy'', JStr ''admin-krupa'')]\<rparr>,
        (Map.empty((7::int) \<mapsto> [(''id'', JNum 7), (''name'', JStr ''Acme''), (''status'', JStr ''pending'')]))
          (7 \<mapsto> [(''id'', JNum 7), (''name'', JStr ''Acme''), (''status'', JStr ''approved''),
                  (''approvedBy'', JStr ''admin-krupa'')]))"
proof -
  let ?req = "(new_request PATCH ''/api/companies/7/status'')
                \<lparr>params := [(''id'', ''7'')], req_body := [(''status'', JStr ''approved'')]\<rparr>"
  let ?company = "[(''id'', JNum 7), (''name'', JStr ''Acme''), (''status'', JStr ''pending'')]"
  let ?db = "Map.empty((7::int) \<mapsto> ?company)"
  have h1: "parseInt (req_param ?req ''id'') = JNum 7"
    by (simp add: req_param_def new_request_def js_simps)
  have h2: "?db 7 = Some ?company"
    by simp
  have h3: "obj_get ?company ''status'' = JStr ''pending''"
    by simp
  have h4: "obj_get (req_body ?req) ''status'' = JStr ''approved''"
    by (simp add: new_request_def)
  from approve_twice_same [where req = "?req" and cid = 7 and db = "?db" and company = "?company"
      and st = empty_storage, OF h1 h2 h3 h4] h1 show ?thesis
    by (simp add: Let_def js_or_def new_request_def)
qed

section \<open>Listing companies\<close>

text \<open>
  Claim C9: when the query parameter \<^verbatim>\<open>q\<close> of \<^verbatim>\<open>GET /api/companies\<close> is the string
  \<^verbatim>\<open>"undefined"\<close> or has fewer than two characters, the handler does what it does for the
  same request without \<^verbatim>\<open>q\<close>: its one call into the storage is \<^verbatim>\<open>getCompanies\<close>, with
  the given limit capped at 50000, or with 100 when no positive limit is given.
\<close>

theorem companies_short_query_lists:
  assumes "req_query req ''q'' = JStr s"
    and "s = ''undefined'' \<or> length s < 2"
    and "req_query req' ''q'' = JUndefined"
    and "req_query req' ''limit'' = req_query req ''limit''"
  shows "get_api_companies st req = get_api_companies st req'
         \<and> snd (get_api_companies st req) =
             [(''getCompanies'',
               [case (if truthy (req_query req ''limit'') then parseInt (req_query req ''limit'') else JNum 0) of
                  JNum l \<Rightarrow> if 0 < l then JNum (min l 50000) else JNum 100
                | _ \<Rightarrow> JNum 100])]"
proof -
  let ?limit = "if truthy (req_query req ''limit'') then parseInt (req_query req ''limit'') else JNum 0"
  have no_search: "s = [] \<or> s = ''undefined'' \<or> \<not> 2 \<le> length s"
    using assms(2) by auto
  have eq: "get_api_companies st req = get_api_companies st req'"
    using assms(1,3,4) no_search by (auto simp: get_api_companies_def Let_def)
  have calls: "snd (get_api_companies st req) =
             [(''getCompanies'',
               [case ?limit of JNum l \<Rightarrow> if 0 < l then JNum (min l 50000) else JNum 100 | _ \<Rightarrow> JNum 100])]"
  proof (cases "truthy (req_query req ''limit'')")
    case False
    with assms(1) no_search show ?thesis
      by (auto simp: get_api_companies_def Let_def calls_simps split: sum.split)
  next
    case True
    from parseInt_cases [of "req_query req ''limit''"] show ?thesis
    proof
      assume "\<exists>n. parseInt (req_query req ''limit'') = JNum n"
      then obtain n where "parseInt (req_query req ''limit'') = JNum n" ..
      with True assms(1) no_search show ?thesis
        by (auto simp: get_api_companies_def Let_def calls_simps split: sum.split)
    next
      assume "parseInt (req_query req ''limit'') = JNaN"
      with True assms(1) no_search show ?thesis
        by (auto simp: get_api_companies_def Let_def calls_simps split: sum.split)
    qed
  qed
  from eq calls show ?thesis by simp
qed

theorem companies_short_query_lists_witness:
  "req_query ((new_request GET ''/api/companies'')\<lparr>query := [(''q'', ''undefined''), (''limit'', ''25'')]\<rparr>) ''q''
     = JStr ''undefined''
   \<and> get_api_companies (table_storage [((''getCompanies'', [JNum 25]), JArr [JObj [(''name'', JStr ''Acme'')]])])
         ((new_request GET ''/api/companies'')\<lparr>query := [(''q'', ''undefined''), (''limit'', ''25'')]\<rparr>) =
       get_api_companies (table_storage [((''getCompanies'', [JNum 25]), JArr [JObj [(''name'', JStr ''Acme'')]])])
         ((new_request GET ''/api/companies'')\<lparr>query := [(''limit'', ''25'')]\<rparr>)
   \<and> snd (get_api_companies (table_storage [((''getCompanies'', [JNum 25]), JArr [JObj [(''name'', JStr ''Acme'')]])])
         ((new_request GET ''/api/companies'')\<lparr>query := [(''q'', ''undefined''), (''limit'', ''25'')]\<rparr>)) =
       [(''getCompanies'', [JNum 25])]"
proof -
  let ?req = "(new_request GET ''/api/companies'')\<lparr>query := [(''q'', ''undefined''), (''limit'', ''25'')]\<rparr>"
  let ?req' = "(new_request GET ''/api/companies'')\<lparr>query := [(''limit'', ''25'')]\<rparr>"
  let ?st = "table_storage [((''getCompanies'', [JNum 25]), JArr [JObj [(''name'', JStr ''Acme'')]])]"
  have h1: "req_query ?req ''q'' = JStr ''undefined''"
    by (simp add: req_query_def new_request_def)
  have h2: "''undefined'' = ''undefined'' \<or> length ''undefined'' < 2"
    by simp
  have h3: "req_query ?req' ''q'' = JUndefined"
    by (simp add: req_query_def new_request_def)
  have h4: "req_query ?req' ''limit'' = req_query ?req ''limit''"
    by (simp add: req_query_def new_request_def)
  have limit: "req_query ?req ''limit'' = JStr ''25''"
    by (simp add: req_query_def new_request_def)
  have parsed: "parseInt (JStr ''25'') = JNum 25"
    by (simp add: js_simps)
  note both = companies_short_query_lists [OF h1 h2 h3 h4, of ?st]
  have same: "get_api_companies ?st ?req = get_api_companies ?st ?req'"
    by (rule both [THEN conjunct1])
  have calls: "snd (get_api_companies ?st ?req) = [(''getCompanies'', [JNum 25])]"
    using both [THEN conjunct2] by (simp add: limit parsed)
  from h1 same calls show ?thesis
    by (intro conjI)
qed

section \<open>The open jobs of a company\<close>

text \<open>
  Claim C10: in the response of \<^verbatim>\<open>GET /api/companies/:id/details\<close>, \<^verbatim>\<open>openJobs\<close> holds
  exactly the jobs of the company whose \<^verbatim>\<open>isActive\<close> is the boolean \<^verbatim>\<open>true\<close>, in the order
  the storage returned them, and \<^verbatim>\<open>vendors\<close> is what the storage returned for the
  company, unfiltered. The jobs are the records the storage returns (none of them
  \<^verbatim>\<open>null\<close> or \<^verbatim>\<open>undefined\<close>).
\<close>

theorem company_details_open_jobs:
  assumes "parseInt (req_param req ''id'') = JNum cid"
    and "st ''getJobsByCompany'' [JNum cid] = Inr (JArr jobs)"
    and "\<forall>job \<in> set jobs. job \<noteq> JUndefined \<and> job \<noteq> JNull"
    and "st ''getClientVendors'' [JNum cid] = Inr vendors"
  shows "get_api_companies_id_details st req =
           (Respond \<lparr>status = 200,
                     res_body = JObj [(''openJobs'',
                                       JArr (filter (\<lambda>job. get_prop_opt job ''isActive'' = JBool True) jobs)),
                                      (''vendors'', vendors)]\<rparr>,
            [(''getJobsByCompany'', [JNum cid]), (''getClientVendors'', [JNum cid])])"
  using assms(1,2,4) filter_js_isActive [OF assms(3)]
  by (simp add: get_api_companies_id_details_def comp_simps Let_def)

theorem company_details_open_jobs_witness:
  "parseInt (req_param ((new_request GET ''/api/companies/7/details'')\<lparr>params := [(''id'', ''7'')]\<rparr>) ''id'') = JNum 7
   \<and> get_api_companies_id_details
         (table_storage
            [((''getJobsByCompany'', [JNum 7]),
              JArr [JObj [(''id'', JNum 1), (''isActive'', JBool True)],
                    JObj [(''id'', JNum 2), (''isActive'', JBool False)],
                    JObj [(''id'', JNum 3), (''isActive'', JNull)],
                    JObj [(''id'', JNum 4)],
                    JObj [(''id'', JNum 5), (''isActive'', JStr ''true'')],
                    JObj [(''id'', JNum 6), (''isActive'', JBool True)]]),
             ((''getClientVendors'', [JNum 7]), JArr [JObj [(''name'', JStr ''Vendor''), (''status'', JStr ''pending'')]])])
         ((new_request GET ''/api/companies/7/details'')\<lparr>params := [(''id'', ''7'')]\<rparr>) =
       (Respond \<lparr>status = 200,
                 res_body = JObj [(''openJobs'', JArr [JObj [(''id'', JNum 1), (''isActive'', JBool True)],
                                                      JObj [(''id'', JNum 6), (''isActive'', JBool True)]]),
                                  (''vendors'', JArr [JObj [(''name'', JStr ''Vendor''), (''status'', JStr ''pending'')]])]\<rparr>,
        [(''getJobsByCompany'', [JNum 7]), (''getClientVendors'', [JNum 7])])"
proof -
  let ?req = "(new_request GET ''/api/companies/7/details'')\<lparr>params := [(''id'', ''7'')]\<rparr>"
  let ?jobs = "[JObj [(''id'', JNum 1), (''isActive'', JBool True)],
                JObj [(''id'', JNum 2), (''isActive'', JBool False)],
                JObj [(''id'', JNum 3), (''isActive'', JNull)],
                JObj [(''id'', JNum 4)],
                JObj [(''id'', JNum 5), (''isActive'', JStr ''true'')],
                JObj [(''id'', JNum 6), (''isActive'', JBool True)]]"
  let ?vendors = "JArr [JObj [(''name'', JStr ''Vendor''), (''status'', JStr ''pending'')]]"
  let ?st = "table_storage [((''getJobsByCompany'', [JNum 7]), JArr ?jobs),
                            ((''getClientVendors'', [JNum 7]), ?vendors)]"
  have h1: "parseInt (req_param ?req ''id'') = JNum 7"
    by (simp add: req_param_def new_request_def js_simps)
  have h2: "?st ''getJobsByCompany'' [JNum 7] = Inr (JArr ?jobs)"
    by (simp add: table_storage_def)
  have h3: "\<forall>job \<in> set ?jobs. job \<noteq> JUndefined \<and> job \<noteq> JNull"
    by simp
  have h4: "?st ''getClientVendors'' [JNum 7] = Inr ?vendors"
    by (simp add: table_storage_def)
  from company_details_open_jobs [where req = "?req" and cid = 7 and st = "?st" and jobs = "?jobs"
      and vendors = "?vendors", OF h1 h2 h3 h4] h1 show ?thesis
    by simp
qed

end
